theory Spec2Isabelle
  imports Complex_Main
begin

section \<open>Actor-critic trainers of \<^verbatim>\<open>trax/rl/actor_critic.py\<close>\<close>

text \<open>
  The development embeds the four trainer classes of \<^verbatim>\<open>actor_critic.py\<close>:
  \<^verbatim>\<open>ActorCriticTrainer\<close>, \<^verbatim>\<open>AWRTrainer\<close>, \<^verbatim>\<open>AdvantageActorCriticTrainer\<close> and
  \<^verbatim>\<open>PPOTrainer\<close>. Floating-point numbers are idealised as real numbers: rounding is
  not modelled. The weights of the AWR deriver are computed with the exponential of the
  floats, which underflows to 0, and with the infinities that a division by zero gives.
  Where a result is \<^verbatim>\<open>nan\<close> (a quotient of zeros, the mean of an empty array), which
  numpy returns without raising, the model returns the marker \<open>NonFinite\<close> instead of a
  number.
\<close>

subsection \<open>Exceptions\<close>

datatype error =
    TypeError
  | IndexError
  | ValueError
  | AxisError
  | AssertionError
  | AttributeError
  | StopIteration
  | NotImplementedError
  | NonFinite

definition bind_res :: "error + 'a \<Rightarrow> ('a \<Rightarrow> error + 'b) \<Rightarrow> error + 'b" where
  "bind_res m f = (case m of Inl e \<Rightarrow> Inl e | Inr x \<Rightarrow> f x)"

subsection \<open>Arrays\<close>

text \<open>
  A numpy array is its shape together with the element at every multi-index. Only the
  indices inside the shape are meaningful.
\<close>

record 'a ndarray =
  shape :: "nat list"
  elems :: "nat list \<Rightarrow> 'a"

definition in_range :: "nat list \<Rightarrow> nat list \<Rightarrow> bool" where
  "in_range s i = list_all2 (\<lambda>k d. k < d) i s"

text \<open>\<^verbatim>\<open>a[:, :, None]\<close>: a new axis of length one at position 2. Fewer than two axes
  raise \<^verbatim>\<open>IndexError: too many indices for array\<close>.\<close>

definition newaxis2 :: "'a ndarray \<Rightarrow> error + 'a ndarray" where
  "newaxis2 a =
     (if length (shape a) < 2 then Inl IndexError
      else Inr \<lparr>shape = take 2 (shape a) @ [1] @ drop 2 (shape a),
                elems = (\<lambda>i. elems a (take 2 i @ drop 3 i))\<rparr>)"

text \<open>\<^verbatim>\<open>a[:, :-1]\<close>: all but the last position of axis 1 (an empty axis stays empty).\<close>

definition slice_but_last :: "'a ndarray \<Rightarrow> error + 'a ndarray" where
  "slice_but_last a =
     (case shape a of
        b # t # rest \<Rightarrow> Inr \<lparr>shape = b # (t - 1) # rest, elems = elems a\<rparr>
      | _ \<Rightarrow> Inl IndexError)"

text \<open>\<^verbatim>\<open>a[:, 1:]\<close>: all but the first position of axis 1.\<close>

definition slice_from_1 :: "'a ndarray \<Rightarrow> error + 'a ndarray" where
  "slice_from_1 a =
     (case shape a of
        b # t # rest \<Rightarrow>
          Inr \<lparr>shape = b # (t - 1) # rest,
               elems = (\<lambda>i. case i of k # j # r \<Rightarrow> elems a (k # Suc j # r) | _ \<Rightarrow> elems a i)\<rparr>
      | _ \<Rightarrow> Inl IndexError)"

text \<open>Broadcasting of two shapes, aligned at the last axis: two lengths are compatible
  when they are equal or one of them is 1.\<close>

fun broadcast_rev :: "nat list \<Rightarrow> nat list \<Rightarrow> nat list option" where
  "broadcast_rev [] ys = Some ys"
| "broadcast_rev xs [] = Some xs"
| "broadcast_rev (x # xs) (y # ys) =
     (if x = y \<or> y = 1 then map_option ((#) x) (broadcast_rev xs ys)
      else if x = 1 then map_option ((#) y) (broadcast_rev xs ys)
      else None)"

definition broadcast_shapes :: "nat list \<Rightarrow> nat list \<Rightarrow> nat list option" where
  "broadcast_shapes s1 s2 = map_option rev (broadcast_rev (rev s1) (rev s2))"

text \<open>The index of an operand of shape \<open>s\<close> that a result index \<open>i\<close> reads: the last
  \<open>length s\<close> components, with 0 on every stretched axis.\<close>

definition operand_index :: "nat list \<Rightarrow> nat list \<Rightarrow> nat list" where
  "operand_index s i =
     map (\<lambda>(d, k). if d = 1 then 0 else k) (zip s (drop (length i - length s) i))"

definition elementwise ::
  "('a \<Rightarrow> 'b \<Rightarrow> 'c) \<Rightarrow> 'a ndarray \<Rightarrow> 'b ndarray \<Rightarrow> error + 'c ndarray" where
  "elementwise f x y =
     (case broadcast_shapes (shape x) (shape y) of
        None \<Rightarrow> Inl ValueError
      | Some s \<Rightarrow>
          Inr \<lparr>shape = s,
               elems = (\<lambda>i. f (elems x (operand_index (shape x) i))
                               (elems y (operand_index (shape y) i)))\<rparr>)"

text \<open>An operation between an array and a Python scalar, and a unary ufunc.\<close>

definition map_nd :: "('a \<Rightarrow> 'b) \<Rightarrow> 'a ndarray \<Rightarrow> 'b ndarray" where
  "map_nd f a = \<lparr>shape = shape a, elems = (\<lambda>i. f (elems a i))\<rparr>"

subsection \<open>Trajectory slices\<close>

text \<open>The fields of a \<^verbatim>\<open>TrajectoryNp\<close> that the trainers read.\<close>

record ('o, 'a) TrajectoryNp =
  observations :: "'o ndarray"
  actions :: "'a ndarray"
  rewards :: "real ndarray"
  returns :: "real ndarray"
  log_probs :: "real ndarray"
  mask :: "real ndarray"

text \<open>What \<^verbatim>\<open>policy_inputs\<close> can return: a tuple of arrays, or (in the base class) the
  exception class object itself, returned as an ordinary value.\<close>

datatype ('o, 'a) policy_input =
    ExceptionClass error
  | Tuple3 "'o ndarray" "'a ndarray" "real ndarray"
  | Tuple4 "'o ndarray" "'a ndarray" "real ndarray" "real ndarray"

subsection \<open>Policy-input derivers\<close>

text \<open>\<^verbatim>\<open>ActorCriticTrainer.policy_inputs\<close>: \<^verbatim>\<open>return NotImplementedError\<close>.\<close>

definition ActorCriticTrainer_policy_inputs ::
  "('o, 'a) TrajectoryNp \<Rightarrow> real ndarray \<Rightarrow> error + ('o, 'a) policy_input" where
  "ActorCriticTrainer_policy_inputs trajectory values = Inr (ExceptionClass NotImplementedError)"

text \<open>\<^verbatim>\<open>AdvantageActorCriticTrainer.policy_inputs\<close>.\<close>

definition A2C_policy_inputs ::
  "('o, 'a) TrajectoryNp \<Rightarrow> real ndarray \<Rightarrow> error + ('o, 'a) policy_input" where
  "A2C_policy_inputs trajectory values =
     bind_res (slice_but_last (returns trajectory)) (\<lambda>ret.
     bind_res (slice_but_last values) (\<lambda>val.
     bind_res (elementwise (\<lambda>r v. r - v) ret val) (\<lambda>advantages.
       Inr (Tuple3 (observations trajectory) (actions trajectory) advantages))))"

text \<open>\<^verbatim>\<open>np.squeeze(a, axis=2)\<close>: removes axis 2, which must exist and have length one.\<close>

definition squeeze_axis2 :: "'a ndarray \<Rightarrow> error + 'a ndarray" where
  "squeeze_axis2 a =
     (if length (shape a) \<le> 2 then Inl AxisError
      else if shape a ! 2 \<noteq> 1 then Inl ValueError
      else Inr \<lparr>shape = take 2 (shape a) @ drop 3 (shape a),
                elems = (\<lambda>i. elems a (take 2 i @ [0] @ drop 2 i))\<rparr>)"

text \<open>Modelled from the spec: \<^verbatim>\<open>trax.shapes.assert_shape_equals\<close> is not part of the
  source file. Section 4.2 of the specification: the output shape is asserted to be exactly
  the expected one, and a mismatch is a fatal assertion.\<close>

definition assert_shape_equals :: "'a ndarray \<Rightarrow> int list \<Rightarrow> error + unit" where
  "assert_shape_equals array expected =
     (if map int (shape array) = expected then Inr () else Inl AssertionError)"

text \<open>The mean of all elements; of an empty array numpy returns \<^verbatim>\<open>nan\<close>.\<close>

fun all_indices :: "nat list \<Rightarrow> nat list list" where
  "all_indices [] = [[]]"
| "all_indices (d # ds) = concat (map (\<lambda>k. map ((#) k) (all_indices ds)) [0..<d])"

definition mean_nd :: "real ndarray \<Rightarrow> error + real" where
  "mean_nd a =
     (let xs = map (elems a) (all_indices (shape a))
      in if xs = [] then Inl NonFinite else Inr (sum_list xs / real (length xs)))"

text \<open>An array written as a list of rows, for concrete inputs.\<close>

definition of_rows :: "'a list list \<Rightarrow> 'a ndarray" where
  "of_rows rows =
     \<lparr>shape = [length rows, (case rows of [] \<Rightarrow> 0 | r # _ \<Rightarrow> length r)],
      elems = (\<lambda>i. rows ! (i ! 0) ! (i ! 1))\<rparr>"

subsection \<open>The task and the trainer objects\<close>

text \<open>An argument of a call is either passed or left to the callee's default.\<close>

datatype 'a arg = NotPassed | Passed 'a

text \<open>The arguments of \<^verbatim>\<open>task.trajectory_batch_stream\<close>.\<close>

record stream_request =
  req_batch_size :: int
  req_epochs :: "int list option arg"
  req_max_slice_length :: "int option arg"
  req_include_final_state :: "bool arg"
  req_sample_trajectories_uniformly :: "bool arg"

text \<open>The \<^verbatim>\<open>RLTask\<close> is an external collaborator: its discount factor, and for every
  request the infinite sequence of trajectory slices that its generator yields.\<close>

record ('o, 'a) RLTask =
  gamma :: real
  trajectory_batch_stream :: "stream_request \<Rightarrow> nat \<Rightarrow> ('o, 'a) TrajectoryNp"

text \<open>The attributes of an \<^verbatim>\<open>ActorCriticTrainer\<close>. The two policy attributes are set by
  the constructor of the parent class \<^verbatim>\<open>PolicyTrainer\<close>.\<close>

record ('o, 'a) ActorCriticTrainer =
  task :: "('o, 'a) RLTask"
  on_policy :: bool
  n_shared_layers :: int
  value_batch_size :: int
  value_train_steps_per_epoch :: int
  max_slice_length :: "int option"
  value_output_dir :: "string option"
  policy_batch_size :: int
  policy_train_steps_per_epoch :: int

record ('o, 'a) AWRTrainer = "('o, 'a) ActorCriticTrainer" +
  beta :: real
  w_max :: real

text \<open>\<open>self_old_log_probs\<close> is the instance attribute \<^verbatim>\<open>self.old_log_probs\<close>; it is
  \<open>None\<close> when the instance has no such attribute.\<close>

record ('o, 'a) PPOTrainer = "('o, 'a) ActorCriticTrainer" +
  ppo_eps :: real
  self_old_log_probs :: "real ndarray option"

subsection \<open>Generators\<close>

text \<open>A generator that runs \<open>body\<close> on every element of an infinite source:
  \<open>generate body src n\<close> is the outcome of the \<open>n\<close>-th call of \<^verbatim>\<open>next\<close> (counted from 0).
  Once the body has raised, the generator is finished and \<^verbatim>\<open>next\<close> raises
  \<^verbatim>\<open>StopIteration\<close>.\<close>

fun generate :: "('a \<Rightarrow> error + 'b) \<Rightarrow> (nat \<Rightarrow> 'a) \<Rightarrow> nat \<Rightarrow> error + 'b" where
  "generate body src 0 = body (src 0)"
| "generate body src (Suc n) =
     (case generate body src n of
        Inl e \<Rightarrow> Inl StopIteration
      | Inr y \<Rightarrow> body (src (Suc n)))"

subsection \<open>\<^verbatim>\<open>value_batches_stream\<close>\<close>

definition value_request :: "('o, 'a, 'z) ActorCriticTrainer_scheme \<Rightarrow> stream_request" where
  "value_request self =
     \<lparr>req_batch_size = value_batch_size self,
      req_epochs = NotPassed,
      req_max_slice_length = Passed (max_slice_length self),
      req_include_final_state = NotPassed,
      req_sample_trajectories_uniformly = NotPassed\<rparr>"

definition value_batch ::
  "('o, 'a) TrajectoryNp \<Rightarrow> error + ('o ndarray \<times> real ndarray \<times> real ndarray)" where
  "value_batch np_trajectory =
     bind_res (newaxis2 (returns np_trajectory)) (\<lambda>targets.
     bind_res (newaxis2 (mask np_trajectory)) (\<lambda>weights.
       Inr (observations np_trajectory, targets, weights)))"

definition value_batches_stream ::
  "('o, 'a, 'z) ActorCriticTrainer_scheme \<Rightarrow> nat \<Rightarrow>
     error + ('o ndarray \<times> real ndarray \<times> real ndarray)" where
  "value_batches_stream self =
     generate value_batch (trajectory_batch_stream (task self) (value_request self))"

subsection \<open>\<^verbatim>\<open>policy_batches_stream\<close>\<close>

definition policy_request ::
  "('o, 'a, 'z) ActorCriticTrainer_scheme \<Rightarrow> int \<Rightarrow> stream_request" where
  "policy_request self L =
     \<lparr>req_batch_size = policy_batch_size self,
      req_epochs = Passed (if on_policy self then Some [- 1] else None),
      req_max_slice_length = Passed (Some (L + 1)),
      req_include_final_state = Passed True,
      req_sample_trajectories_uniformly = Passed True\<rparr>"

text \<open>The body of the loop. \<open>policy_inputs\<close> is the method of the concrete class,
  \<open>value_model\<close> the evaluation of the value network with the given weights, and
  \<open>value_weights\<close> the weights of the value trainer at the time of the pull.\<close>

definition policy_batch ::
  "('o, 'a, 'z) ActorCriticTrainer_scheme \<Rightarrow>
   (('o, 'a) TrajectoryNp \<Rightarrow> real ndarray \<Rightarrow> error + ('o, 'a) policy_input) \<Rightarrow>
   ('w list \<Rightarrow> 'o ndarray \<Rightarrow> error + real ndarray) \<Rightarrow>
   int \<Rightarrow> 'w list \<times> ('o, 'a) TrajectoryNp \<Rightarrow> error + ('o, 'a) policy_input" where
  "policy_batch self policy_inputs value_model L pull =
     (case pull of (value_weights, np_trajectory) \<Rightarrow>
        bind_res (value_model value_weights (observations np_trajectory)) (\<lambda>values.
        bind_res (assert_shape_equals values [policy_batch_size self, L + 1, 1]) (\<lambda>_.
        bind_res (squeeze_axis2 values) (\<lambda>values.
          policy_inputs np_trajectory values))))"

text \<open>\<^verbatim>\<open>self._max_slice_length + 1\<close> raises \<^verbatim>\<open>TypeError\<close> when the attribute is
  \<^verbatim>\<open>None\<close>, at the first \<^verbatim>\<open>next\<close> and before any slice is drawn.\<close>

definition policy_batches_stream ::
  "('o, 'a, 'z) ActorCriticTrainer_scheme \<Rightarrow>
   (('o, 'a) TrajectoryNp \<Rightarrow> real ndarray \<Rightarrow> error + ('o, 'a) policy_input) \<Rightarrow>
   ('w list \<Rightarrow> 'o ndarray \<Rightarrow> error + real ndarray) \<Rightarrow>
   (nat \<Rightarrow> 'w list) \<Rightarrow> nat \<Rightarrow> error + ('o, 'a) policy_input" where
  "policy_batches_stream self policy_inputs value_model weights_at =
     (case max_slice_length self of
        None \<Rightarrow> generate (\<lambda>_. Inl TypeError) (\<lambda>n. ())
      | Some L \<Rightarrow>
          generate (policy_batch self policy_inputs value_model L)
            (\<lambda>n. (weights_at n, trajectory_batch_stream (task self) (policy_request self L) n)))"

subsection \<open>\<^verbatim>\<open>AWRTrainer.policy_inputs\<close> and \<^verbatim>\<open>PPOTrainer.policy_inputs\<close>\<close>

text \<open>\<^verbatim>\<open>np.exp\<close> on float64 numbers. Rounding is not modelled; underflow is: a value
  of at most \<open>2 ^ -1075\<close>, half of the smallest positive float, is returned as 0.
  (Above the largest float \<^verbatim>\<open>np.exp\<close> returns \<^verbatim>\<open>inf\<close>, of which only
  \<^verbatim>\<open>np.minimum(inf, w_max)\<close> is taken below; for every float \<open>w_max\<close> that is
  \<open>w_max\<close>, as is the minimum with the exact exponential.)\<close>

definition np_exp :: "real \<Rightarrow> real" where
  "np_exp x = (if exp x \<le> 1 / 2 ^ 1075 then 0 else exp x)"

text \<open>The weight of one timestep, \<^verbatim>\<open>np.minimum(np.exp(td / beta), w_max)\<close>. Dividing
  by \<^verbatim>\<open>beta = 0\<close> (the float \<open>+0.0\<close>) does not raise in numpy: a positive advantage
  gives \<^verbatim>\<open>inf\<close> and the weight \<open>w_max\<close>, a negative one gives \<^verbatim>\<open>-inf\<close>, the
  exponential 0 and the weight \<open>min 0 w_max\<close>; the advantage 0 gives \<^verbatim>\<open>nan\<close>.\<close>

definition awr_weight :: "real \<Rightarrow> real \<Rightarrow> real \<Rightarrow> real" where
  "awr_weight b w td =
     (if b = 0 then (if 0 < td then w else min 0 w) else min (np_exp (td / b)) w)"

text \<open>\<^verbatim>\<open>AWRTrainer.policy_inputs\<close>. The marker \<open>NonFinite\<close> stands for a tuple whose
  weights contain \<^verbatim>\<open>nan\<close>.\<close>

definition AWR_policy_inputs ::
  "('o, 'a, 'z) AWRTrainer_scheme \<Rightarrow> ('o, 'a) TrajectoryNp \<Rightarrow> real ndarray \<Rightarrow>
     error + ('o, 'a) policy_input" where
  "AWR_policy_inputs self trajectory values =
     bind_res (slice_but_last (rewards trajectory)) (\<lambda>rew.
     bind_res (slice_from_1 values) (\<lambda>values_next.
     bind_res (elementwise (\<lambda>r v. r + v) rew (map_nd (\<lambda>v. gamma (task self) * v) values_next))
       (\<lambda>rew_plus.
     bind_res (slice_but_last values) (\<lambda>values_now.
     bind_res (elementwise (\<lambda>x v. x - v) rew_plus values_now) (\<lambda>td_advantage.
     bind_res (slice_but_last (observations trajectory)) (\<lambda>obs.
     bind_res (slice_but_last (actions trajectory)) (\<lambda>act.
       if beta self = 0 \<and>
          list_ex (\<lambda>i. elems td_advantage i = 0) (all_indices (shape td_advantage))
       then Inl NonFinite
       else Inr (Tuple3 obs act
              (map_nd (awr_weight (beta self) (w_max self)) td_advantage)))))))))"

definition PPO_policy_inputs ::
  "('o, 'a) TrajectoryNp \<Rightarrow> real ndarray \<Rightarrow> error + ('o, 'a) policy_input" where
  "PPO_policy_inputs trajectory values =
     bind_res (slice_but_last (returns trajectory)) (\<lambda>ret.
     bind_res (slice_but_last values) (\<lambda>val.
     bind_res (elementwise (\<lambda>r v. r - v) ret val) (\<lambda>advantages.
     bind_res (slice_but_last (log_probs trajectory)) (\<lambda>old_log_probs.
       Inr (Tuple4 (observations trajectory) (actions trajectory) advantages old_log_probs)))))"

subsection \<open>\<^verbatim>\<open>PPOTrainer.ppo_loss\<close>\<close>

text \<open>\<^verbatim>\<open>jax.lax.clamp(lo, x, hi)\<close>.\<close>

definition clamp :: "real \<Rightarrow> real \<Rightarrow> real \<Rightarrow> real" where
  "clamp lo x hi = min (max x lo) hi"

text \<open>The denominator reads the attribute \<^verbatim>\<open>self.old_log_probs\<close>; the parameter
  \<^verbatim>\<open>old_log_probs\<close> is not read. \<^verbatim>\<open>np.stack\<close> of the two objectives followed by
  \<^verbatim>\<open>np.min\<close> along the new axis is their elementwise minimum.\<close>

definition ppo_loss ::
  "('o, 'a, 'z) PPOTrainer_scheme \<Rightarrow> real ndarray \<Rightarrow> real ndarray \<Rightarrow> real ndarray \<Rightarrow>
     error + real" where
  "ppo_loss self new_log_probs advantages old_log_probs =
     (case self_old_log_probs self of
        None \<Rightarrow> Inl AttributeError
      | Some attr \<Rightarrow>
          bind_res (elementwise (\<lambda>n d. n / d) (map_nd exp new_log_probs) (map_nd exp attr))
            (\<lambda>probs_ratio.
          bind_res (elementwise (\<lambda>r a. r * a) probs_ratio advantages) (\<lambda>unclipped_objective.
          bind_res (elementwise (\<lambda>r a. r * a)
                      (map_nd (\<lambda>r. clamp (1 - ppo_eps self) r (1 + ppo_eps self)) probs_ratio)
                      advantages) (\<lambda>clipped_objective.
          bind_res (if shape unclipped_objective = shape clipped_objective
                    then elementwise min unclipped_objective clipped_objective
                    else Inl ValueError) (\<lambda>ppo_objective.
          bind_res (mean_nd ppo_objective) (\<lambda>m. Inr (- m)))))))"

subsection \<open>\<^verbatim>\<open>ActorCriticTrainer.train_epoch\<close>\<close>

text \<open>The \<^verbatim>\<open>model_weights\<close> of the value trainer and of the policy trainer: ordered
  lists of parameter blocks.\<close>

record 'w trainers =
  value_model_weights :: "'w list"
  policy_model_weights :: "'w list"

text \<open>\<open>value_train_epoch\<close> and \<open>policy_train_epoch\<close> are \<^verbatim>\<open>train_epoch\<close> of the two
  supervised trainers: from the number of steps, the number of evaluation steps and the
  current weights to the new weights, or an exception. The policy trainer draws its
  batches from \<^verbatim>\<open>policy_batches_stream\<close>, which reads the value weights.
  The slice assignment \<^verbatim>\<open>ws[:k] = shared\<close> on a list is \<open>shared @ drop k ws\<close>.\<close>

definition train_epoch ::
  "('o, 'a, 'z) ActorCriticTrainer_scheme \<Rightarrow>
   (int \<Rightarrow> int \<Rightarrow> 'w list \<Rightarrow> error + 'w list) \<Rightarrow>
   (int \<Rightarrow> int \<Rightarrow> 'w list \<Rightarrow> 'w list \<Rightarrow> error + 'w list) \<Rightarrow>
   'w trainers \<Rightarrow> error + 'w trainers" where
  "train_epoch self value_train_epoch policy_train_epoch st =
     bind_res (value_train_epoch (value_train_steps_per_epoch self) 1 (value_model_weights st))
       (\<lambda>trained_value.
     let st1 = st\<lparr>value_model_weights := trained_value\<rparr>;
         st2 = (if n_shared_layers self > 0 then
                  (let value_weights = value_model_weights st1;
                       policy_weights = policy_model_weights st1;
                       shared_weights = take (nat (n_shared_layers self)) value_weights
                   in st1\<lparr>policy_model_weights :=
                            shared_weights @ drop (nat (n_shared_layers self)) policy_weights\<rparr>)
                else st1)
     in bind_res (policy_train_epoch (policy_train_steps_per_epoch self) 1
                    (value_model_weights st2) (policy_model_weights st2))
       (\<lambda>trained_policy.
     let st3 = st2\<lparr>policy_model_weights := trained_policy\<rparr>
     in Inr (if n_shared_layers self > 0 then
               (let value_weights = value_model_weights st3;
                    policy_weights = policy_model_weights st3;
                    shared_weights = take (nat (n_shared_layers self)) policy_weights
                in st3\<lparr>value_model_weights :=
                         shared_weights @ drop (nat (n_shared_layers self)) value_weights\<rparr>)
             else st3)))"

text \<open>The four steps of section 4.5 of the specification, one definition each.\<close>

definition step_value_epoch ::
  "(int \<Rightarrow> int \<Rightarrow> 'w list \<Rightarrow> error + 'w list) \<Rightarrow> int \<Rightarrow> 'w trainers \<Rightarrow> error + 'w trainers" where
  "step_value_epoch value_train_epoch steps st =
     bind_res (value_train_epoch steps 1 (value_model_weights st))
       (\<lambda>ws. Inr (st\<lparr>value_model_weights := ws\<rparr>))"

definition copy_blocks :: "nat \<Rightarrow> 'w list \<Rightarrow> 'w list \<Rightarrow> 'w list" where
  "copy_blocks k source target = take k source @ drop k target"

definition step_copy_value_to_policy :: "nat \<Rightarrow> 'w trainers \<Rightarrow> 'w trainers" where
  "step_copy_value_to_policy k st =
     st\<lparr>policy_model_weights := copy_blocks k (value_model_weights st) (policy_model_weights st)\<rparr>"

definition step_policy_epoch ::
  "(int \<Rightarrow> int \<Rightarrow> 'w list \<Rightarrow> 'w list \<Rightarrow> error + 'w list) \<Rightarrow> int \<Rightarrow> 'w trainers \<Rightarrow>
     error + 'w trainers" where
  "step_policy_epoch policy_train_epoch steps st =
     bind_res (policy_train_epoch steps 1 (value_model_weights st) (policy_model_weights st))
       (\<lambda>ws. Inr (st\<lparr>policy_model_weights := ws\<rparr>))"

definition step_copy_policy_to_value :: "nat \<Rightarrow> 'w trainers \<Rightarrow> 'w trainers" where
  "step_copy_policy_to_value k st =
     st\<lparr>value_model_weights := copy_blocks k (policy_model_weights st) (value_model_weights st)\<rparr>"

subsection \<open>Constructors\<close>

text \<open>\<^verbatim>\<open>os.path.join(a, b)\<close> of \<^verbatim>\<open>posixpath\<close>: a second component that starts with
  the separator replaces the first.\<close>

definition posix_join :: "string \<Rightarrow> string \<Rightarrow> string" where
  "posix_join a b =
     (if (case b of [] \<Rightarrow> False | c # _ \<Rightarrow> c = CHR ''/'') then b
      else if a = [] \<or> last a = CHR ''/'' then a @ b
      else a @ ''/'' @ b)"

text \<open>The keyword arguments of a constructor call; \<open>None\<close> is a keyword that the caller
  did not pass. (\<^verbatim>\<open>kwargs.get(key, None)\<close> does not tell an absent key from
  \<^verbatim>\<open>None\<close>.)\<close>

record keyword_args =
  kw_value_batch_size :: "int option"
  kw_value_train_steps_per_epoch :: "int option"
  kw_n_shared_layers :: "int option"
  kw_on_policy :: "bool option"
  kw_max_slice_length :: "int option"
  kw_output_dir :: "string option"

text \<open>\<^verbatim>\<open>ActorCriticTrainer.__init__\<close>. \<open>PolicyTrainer_init\<close> is the constructor of the
  parent class, which is not part of the source file: from the keyword arguments to the
  attributes it sets, or an exception. These are the slice length bound, which it
  initialises again (lines 50 to 52 of the source), and the two policy attributes. Until it
  has run the two policy attributes do not exist; \<^verbatim>\<open>value_batches_stream\<close> does not
  read them. The supervised trainer of the value
  model and the evaluation copy of the value model are external objects; their
  construction is taken to succeed.\<close>

definition ActorCriticTrainer_init ::
  "(keyword_args \<Rightarrow> error + int option \<times> int \<times> int) \<Rightarrow> ('o, 'a) RLTask \<Rightarrow> keyword_args \<Rightarrow>
     error + ('o, 'a) ActorCriticTrainer" where
  "ActorCriticTrainer_init PolicyTrainer_init tsk kw =
     (let self = \<lparr>task = tsk,
                  on_policy = (case kw_on_policy kw of None \<Rightarrow> True | Some b \<Rightarrow> b),
                  n_shared_layers = (case kw_n_shared_layers kw of None \<Rightarrow> 0 | Some n \<Rightarrow> n),
                  value_batch_size = (case kw_value_batch_size kw of None \<Rightarrow> 64 | Some n \<Rightarrow> n),
                  value_train_steps_per_epoch =
                    (case kw_value_train_steps_per_epoch kw of None \<Rightarrow> 500 | Some n \<Rightarrow> n),
                  max_slice_length = kw_max_slice_length kw,
                  value_output_dir =
                    (case kw_output_dir kw of
                       None \<Rightarrow> None
                     | Some d \<Rightarrow> Some (posix_join d ''/value'')),
                  policy_batch_size = 0,
                  policy_train_steps_per_epoch = 0\<rparr>
      in bind_res (value_batches_stream self 0) (\<lambda>value_batch.
         bind_res (PolicyTrainer_init kw) (\<lambda>(slice_length, batch, steps).
           Inr (self\<lparr>max_slice_length := slice_length, policy_batch_size := batch,
                      policy_train_steps_per_epoch := steps\<rparr>))))"

text \<open>\<^verbatim>\<open>AWRTrainer.__init__\<close> calls the parent constructor with
  \<^verbatim>\<open>on_policy=False, **kwargs\<close>; a keyword given twice raises \<^verbatim>\<open>TypeError\<close>.\<close>

definition AWRTrainer_init ::
  "(keyword_args \<Rightarrow> error + int option \<times> int \<times> int) \<Rightarrow> ('o, 'a) RLTask \<Rightarrow> real option \<Rightarrow> real option \<Rightarrow>
     keyword_args \<Rightarrow> error + ('o, 'a) AWRTrainer" where
  "AWRTrainer_init PolicyTrainer_init tsk beta_arg w_max_arg kwargs =
     (case kw_on_policy kwargs of
        Some _ \<Rightarrow> Inl TypeError
      | None \<Rightarrow>
          bind_res (ActorCriticTrainer_init PolicyTrainer_init tsk
                      (kwargs\<lparr>kw_on_policy := Some False\<rparr>)) (\<lambda>base.
            Inr (ActorCriticTrainer.extend base
                   (AWRTrainer.fields (case beta_arg of None \<Rightarrow> 1 | Some b \<Rightarrow> b)
                                      (case w_max_arg of None \<Rightarrow> 20 | Some w \<Rightarrow> w)))))"

text \<open>\<^verbatim>\<open>PPOTrainer.__init__\<close> sets \<^verbatim>\<open>ppo_eps\<close> and calls the parent constructor; no
  statement of the file assigns \<^verbatim>\<open>self.old_log_probs\<close>.\<close>

definition PPOTrainer_init ::
  "(keyword_args \<Rightarrow> error + int option \<times> int \<times> int) \<Rightarrow> ('o, 'a) RLTask \<Rightarrow> real option \<Rightarrow> keyword_args \<Rightarrow>
     error + ('o, 'a) PPOTrainer" where
  "PPOTrainer_init PolicyTrainer_init tsk ppo_eps_arg kwargs =
     bind_res (ActorCriticTrainer_init PolicyTrainer_init tsk kwargs) (\<lambda>base.
       Inr (ActorCriticTrainer.extend base
              (PPOTrainer.fields (case ppo_eps_arg of None \<Rightarrow> 2 / 10 | Some e \<Rightarrow> e) None)))"

subsection \<open>Notions of the specification\<close>

text \<open>A path lies below a directory when the directory, closed with a separator, is a
  proper initial segment of the path.\<close>

definition subdirectory_of :: "string \<Rightarrow> string \<Rightarrow> bool" where
  "subdirectory_of p d =
     (d \<noteq> [] \<and>
      (let dd = (if last d = CHR ''/'' then d else d @ ''/'')
       in length dd < length p \<and> take (length dd) p = dd))"

text \<open>Modelled from the spec: the trajectory store of the task is not part of the source
  file. Section 4.3 of the specification: an on-policy trainer samples from the most recent
  generation of collected trajectories only, an off-policy trainer from the full retained
  history. The store is the list of generations, oldest first; the epoch filter
  \<^verbatim>\<open>None\<close> selects all of them, and a list of epoch numbers selects those generations,
  a negative number counting from the most recent one.\<close>

definition selected_generations :: "'t list \<Rightarrow> int list option \<Rightarrow> 't list" where
  "selected_generations history epoch_filter =
     (case epoch_filter of
        None \<Rightarrow> history
      | Some es \<Rightarrow> map (\<lambda>e. history ! nat (e mod int (length history))) es)"

text \<open>Modelled from the spec: the Trajectory Source of the task is not part of the source
  file. Sections 2, 4.3 and 6 of the specification: it keeps the collected trajectories by
  generation and offers
  \<^verbatim>\<open>sample(batch_size, slice_length, epoch_filter, include_final_state, uniform_sampling)\<close>,
  which draws trajectories from the generations that the epoch filter selects and cuts a
  batch of slices from them. \<open>pick\<close> is the random choice: from the number of eligible
  trajectories, the batch size, the uniform-sampling flag and the number of the draw to the
  positions drawn (counted cyclically). \<open>cut\<close> builds the batch of slices from the drawn
  trajectories, the slice length, the final-state flag and the number of the draw. The
  specification gives no defaults for arguments that are not passed; they are taken as no
  epoch filter, no slice length and both flags off.\<close>

record ('o, 'a, 't) trajectory_source =
  discount :: real
  generations :: "'t list list"
  pick :: "nat \<Rightarrow> int \<Rightarrow> bool \<Rightarrow> nat \<Rightarrow> nat list"
  cut :: "'t list \<Rightarrow> int option \<Rightarrow> bool \<Rightarrow> nat \<Rightarrow> ('o, 'a) TrajectoryNp"

definition passed_or :: "'a \<Rightarrow> 'a arg \<Rightarrow> 'a" where
  "passed_or d a = (case a of NotPassed \<Rightarrow> d | Passed x \<Rightarrow> x)"

definition eligible_trajectories :: "'t list list \<Rightarrow> int list option \<Rightarrow> 't list" where
  "eligible_trajectories gens epoch_filter = concat (selected_generations gens epoch_filter)"

definition drawn_trajectories ::
  "('o, 'a, 't) trajectory_source \<Rightarrow> 't list \<Rightarrow> int \<Rightarrow> bool \<Rightarrow> nat \<Rightarrow> 't list" where
  "drawn_trajectories src pool batch uniform n =
     map (\<lambda>i. pool ! (i mod length pool)) (pick src (length pool) batch uniform n)"

definition source_task :: "('o, 'a, 't) trajectory_source \<Rightarrow> ('o, 'a) RLTask" where
  "source_task src =
     \<lparr>gamma = discount src,
      trajectory_batch_stream = (\<lambda>request n.
        cut src
          (drawn_trajectories src
             (eligible_trajectories (generations src) (passed_or None (req_epochs request)))
             (req_batch_size request)
             (passed_or False (req_sample_trajectories_uniformly request)) n)
          (passed_or None (req_max_slice_length request))
          (passed_or False (req_include_final_state request)) n)\<rparr>"

text \<open>The four steps in sequence, with \<open>k\<close> shared blocks.\<close>

definition train_epoch_steps ::
  "('o, 'a, 'z) ActorCriticTrainer_scheme \<Rightarrow>
   (int \<Rightarrow> int \<Rightarrow> 'w list \<Rightarrow> error + 'w list) \<Rightarrow>
   (int \<Rightarrow> int \<Rightarrow> 'w list \<Rightarrow> 'w list \<Rightarrow> error + 'w list) \<Rightarrow>
   nat \<Rightarrow> 'w trainers \<Rightarrow> error + 'w trainers" where
  "train_epoch_steps self value_train_epoch policy_train_epoch k st =
     bind_res (step_value_epoch value_train_epoch (value_train_steps_per_epoch self) st) (\<lambda>s1.
     bind_res (step_policy_epoch policy_train_epoch (policy_train_steps_per_epoch self)
                 (step_copy_value_to_policy k s1)) (\<lambda>s3.
       Inr (step_copy_policy_to_value k s3)))"

text \<open>The invariant of a trajectory slice (section 3 of the specification): the returns
  and the mask have the batch and time dimensions of the observations, which may have
  further feature dimensions.\<close>

definition well_formed_slice :: "('o, 'a) TrajectoryNp \<Rightarrow> bool" where
  "well_formed_slice tr =
     (2 \<le> length (shape (observations tr)) \<and>
      shape (returns tr) = take 2 (shape (observations tr)) \<and>
      shape (mask tr) = take 2 (shape (observations tr)))"

subsection \<open>Concrete objects\<close>

text \<open>A batch of two slices of four timesteps, the value estimates of the end-to-end
  scenario of the specification, and a task that yields this batch.\<close>

definition example_trajectory :: "(real, nat) TrajectoryNp" where
  "example_trajectory =
     \<lparr>observations = of_rows [[0, 0, 0, 0], [0, 0, 0, 0]],
      actions = of_rows [[0, 1, 0, 1], [1, 0, 1, 0]],
      rewards = of_rows [[1, 1, 1, 0], [0, 0, 0, 0]],
      returns = of_rows [[3, 2, 1, 0], [0, 0, 0, 0]],
      log_probs = of_rows [[0, 0, 0, 0], [0, 0, 0, 0]],
      mask = of_rows [[1, 1, 1, 1], [1, 1, 1, 1]]\<rparr>"

definition example_values :: "real ndarray" where
  "example_values = of_rows [[0, 1, 2, 3], [5, 4, 3, 2]]"

definition example_task :: "(real, nat) RLTask" where
  "example_task = \<lparr>gamma = 99 / 100, trajectory_batch_stream = (\<lambda>request n. example_trajectory)\<rparr>"

definition example_trainer :: "(real, nat) ActorCriticTrainer" where
  "example_trainer =
     \<lparr>task = example_task, on_policy = True, n_shared_layers = 2, value_batch_size = 2,
      value_train_steps_per_epoch = 500, max_slice_length = Some 3, value_output_dir = None,
      policy_batch_size = 2, policy_train_steps_per_epoch = 500\<rparr>"

text \<open>A value network with one output per timestep, and one with two.\<close>

definition example_value_model :: "int list \<Rightarrow> real ndarray \<Rightarrow> error + real ndarray" where
  "example_value_model weights obs =
     Inr \<lparr>shape = shape obs @ [1], elems = (\<lambda>i. elems example_values (take 2 i))\<rparr>"

definition two_output_value_model :: "int list \<Rightarrow> real ndarray \<Rightarrow> error + real ndarray" where
  "two_output_value_model weights obs =
     Inr \<lparr>shape = shape obs @ [2], elems = (\<lambda>i. elems example_values (take 2 i))\<rparr>"

text \<open>Training epochs that change every block and keep the number of blocks.\<close>

definition example_value_epoch :: "int \<Rightarrow> int \<Rightarrow> int list \<Rightarrow> error + int list" where
  "example_value_epoch n_steps n_eval_steps ws = Inr (map (\<lambda>w. w + 1) ws)"

definition example_policy_epoch ::
  "int \<Rightarrow> int \<Rightarrow> int list \<Rightarrow> int list \<Rightarrow> error + int list" where
  "example_policy_epoch n_steps n_eval_steps value_ws ws = Inr (map (\<lambda>w. 2 * w) ws)"

text \<open>A trajectory source with two generations of trajectories, each trajectory given by
  its constant reward, which draws two neighbouring trajectories at every draw; and an
  on-policy and an off-policy trainer on its task.\<close>

definition example_source :: "(real, nat, real) trajectory_source" where
  "example_source =
     \<lparr>discount = 99 / 100,
      generations = [[1], [2, 3]],
      pick = (\<lambda>size batch uniform n. [n, Suc n]),
      cut = (\<lambda>drawn slice_length final_state n.
               example_trajectory\<lparr>rewards := of_rows (map (replicate 4) drawn)\<rparr>)\<rparr>"

definition on_policy_trainer :: "(real, nat) ActorCriticTrainer" where
  "on_policy_trainer =
     \<lparr>task = source_task example_source, on_policy = True, n_shared_layers = 0,
      value_batch_size = 2, value_train_steps_per_epoch = 500, max_slice_length = Some 3,
      value_output_dir = None, policy_batch_size = 2, policy_train_steps_per_epoch = 500\<rparr>"

definition off_policy_trainer :: "(real, nat) ActorCriticTrainer" where
  "off_policy_trainer = on_policy_trainer\<lparr>on_policy := False\<rparr>"

text \<open>A parent constructor that sets the documented defaults.\<close>

definition example_PolicyTrainer_init ::
  "keyword_args \<Rightarrow> error + int option \<times> int \<times> int" where
  "example_PolicyTrainer_init kw =
     Inr (case kw_max_slice_length kw of None \<Rightarrow> Some 1 | Some n \<Rightarrow> Some n, 64, 500)"

definition no_keywords :: keyword_args where
  "no_keywords =
     \<lparr>kw_value_batch_size = None, kw_value_train_steps_per_epoch = None,
      kw_n_shared_layers = None, kw_on_policy = None, kw_max_slice_length = None,
      kw_output_dir = None\<rparr>"

text \<open>An AWR trainer with the default hyperparameters, one whose clip \<open>w_max\<close> is
  negative, and a batch with a strongly negative first reward.\<close>

definition large_penalty_trajectory :: "(real, nat) TrajectoryNp" where
  "large_penalty_trajectory =
     example_trajectory\<lparr>rewards := of_rows [[- 1000, 1, 1, 0], [0, 0, 0, 0]]\<rparr>"

definition example_AWR_trainer :: "(real, nat) AWRTrainer" where
  "example_AWR_trainer =
     \<lparr>task = example_task, on_policy = False, n_shared_layers = 0, value_batch_size = 2,
      value_train_steps_per_epoch = 500, max_slice_length = Some 3, value_output_dir = None,
      policy_batch_size = 2, policy_train_steps_per_epoch = 500, beta = 1, w_max = 20\<rparr>"

definition negative_clip_AWR_trainer :: "(real, nat) AWRTrainer" where
  "negative_clip_AWR_trainer =
     \<lparr>task = example_task, on_policy = False, n_shared_layers = 0, value_batch_size = 2,
      value_train_steps_per_epoch = 500, max_slice_length = Some 3, value_output_dir = None,
      policy_batch_size = 2, policy_train_steps_per_epoch = 500, beta = 1, w_max = - 1\<rparr>"

text \<open>The weight at an index of the tuple that a deriver returned.\<close>

definition weight_at :: "error + ('o, 'a) policy_input \<Rightarrow> nat list \<Rightarrow> real option" where
  "weight_at r i = (case r of Inr (Tuple3 obs act weights) \<Rightarrow> Some (elems weights i) | _ \<Rightarrow> None)"

text \<open>The clipped-surrogate loss in the words of section 4.4 of the specification, computed
  from its three arguments: the ratio is the exponential of the difference of the
  log-probabilities, the objective of a timestep is the minimum of the unclipped and the
  clipped product with the advantage, and the loss is minus the mean objective.\<close>

definition spec_ppo_loss ::
  "real \<Rightarrow> real ndarray \<Rightarrow> real ndarray \<Rightarrow> real ndarray \<Rightarrow> error + real" where
  "spec_ppo_loss eps new_log_probs advantages old_log_probs =
     bind_res (elementwise (\<lambda>n d. exp (n - d)) new_log_probs old_log_probs) (\<lambda>ratio.
     bind_res (elementwise (\<lambda>r a. min (r * a) (clamp (1 - eps) r (1 + eps) * a)) ratio advantages)
       (\<lambda>objective.
     bind_res (mean_nd objective) (\<lambda>m. Inr (- m))))"

text \<open>A PPO trainer on which some other code has set the attribute
  \<^verbatim>\<open>old_log_probs\<close>.\<close>

definition PPO_trainer_with_attribute :: "(real, nat) PPOTrainer" where
  "PPO_trainer_with_attribute =
     \<lparr>task = example_task, on_policy = True, n_shared_layers = 0, value_batch_size = 2,
      value_train_steps_per_epoch = 500, max_slice_length = Some 3, value_output_dir = None,
      policy_batch_size = 2, policy_train_steps_per_epoch = 500, ppo_eps = 2 / 10,
      self_old_log_probs = Some (of_rows [[0]])\<rparr>"

section \<open>Properties\<close>

subsection \<open>Weight sharing in \<^verbatim>\<open>train_epoch\<close>\<close>

lemma take_copy_blocks:
  "k \<le> length source \<or> length target \<le> k \<Longrightarrow> take k (copy_blocks k source target) = take k source"
  by (auto simp: copy_blocks_def)

lemma length_copy_blocks:
  "length (copy_blocks k source target) = min k (length source) + (length target - k)"
  by (simp add: copy_blocks_def min_def)

lemma train_epoch_eq_steps:
  assumes "n_shared_layers self = int k" "0 < k"
  shows "train_epoch self V P st = train_epoch_steps self V P k st"
  using assms
  by (auto simp: train_epoch_def train_epoch_steps_def step_value_epoch_def step_policy_epoch_def
      step_copy_value_to_policy_def step_copy_policy_to_value_def copy_blocks_def bind_res_def Let_def
      split: sum.splits)

lemma steps_prefix:
  assumes pres: "\<And>n m vw pw pw'. P n m vw pw = Inr pw' \<Longrightarrow> length pw' = length pw"
    and run: "train_epoch_steps self V P k st = Inr st'"
  shows "take k (value_model_weights st') = take k (policy_model_weights st')"
proof -
  from run obtain s1 s3 where
    s1: "step_value_epoch V (value_train_steps_per_epoch self) st = Inr s1" and
    s3: "step_policy_epoch P (policy_train_steps_per_epoch self) (step_copy_value_to_policy k s1) = Inr s3" and
    st': "st' = step_copy_policy_to_value k s3"
    by (auto simp: train_epoch_steps_def bind_res_def split: sum.splits)
  let ?s2 = "step_copy_value_to_policy k s1"
  from s3 obtain pw where pw: "P (policy_train_steps_per_epoch self) 1 (value_model_weights ?s2) (policy_model_weights ?s2) = Inr pw"
    and s3_eq: "s3 = ?s2\<lparr>policy_model_weights := pw\<rparr>"
    by (auto simp: step_policy_epoch_def bind_res_def split: sum.splits)
  have len: "length pw = length (policy_model_weights ?s2)"
    using pres [OF pw] .
  have "k \<le> length pw \<or> length (value_model_weights s1) \<le> k"
    using len by (simp add: step_copy_value_to_policy_def length_copy_blocks) linarith
  then have "take k (copy_blocks k pw (value_model_weights s1)) = take k pw"
    by (rule take_copy_blocks)
  then show ?thesis
    by (simp add: st' step_copy_policy_to_value_def step_copy_value_to_policy_def s3_eq)
qed

text \<open>
  Claim C1. With \<open>n_shared_layers = k > 0\<close>, a call of \<^verbatim>\<open>train_epoch\<close> is the sequence
  of four steps: the value-training epoch, the copy of the first \<open>k\<close> blocks of the value
  model into the policy model, the policy-training epoch, and the copy of the first \<open>k\<close>
  blocks of the policy model back into the value model. When the call returns, the first
  \<open>k\<close> blocks of the two models are equal. The policy trainer is an external collaborator;
  it is taken to return as many parameter blocks as it was given.
\<close>

theorem train_epoch_shares_prefix:
  assumes "n_shared_layers self = int k" and "0 < k"
    and "\<forall>n m vw pw pw'. policy_train_epoch n m vw pw = Inr pw' \<longrightarrow> length pw' = length pw"
  shows "train_epoch self value_train_epoch policy_train_epoch st =
           train_epoch_steps self value_train_epoch policy_train_epoch k st \<and>
         (\<forall>st'. train_epoch self value_train_epoch policy_train_epoch st = Inr st' \<longrightarrow>
            take k (value_model_weights st') = take k (policy_model_weights st'))"
proof -
  have eq: "train_epoch self value_train_epoch policy_train_epoch st =
      train_epoch_steps self value_train_epoch policy_train_epoch k st"
    using assms(1,2) by (rule train_epoch_eq_steps)
  have "take k (value_model_weights st') = take k (policy_model_weights st')"
    if "train_epoch_steps self value_train_epoch policy_train_epoch k st = Inr st'" for st'
    using assms(3) that steps_prefix [of policy_train_epoch self value_train_epoch k st st'] by blast
  with eq show ?thesis by simp
qed

theorem train_epoch_shares_prefix_witness:
  "n_shared_layers example_trainer = int 2 \<and> 0 < (2::nat) \<and>
   train_epoch example_trainer example_value_epoch example_policy_epoch
     \<lparr>value_model_weights = [1, 2, 3], policy_model_weights = [10, 20, 30]\<rparr> =
     Inr \<lparr>value_model_weights = [4, 6, 4], policy_model_weights = [4, 6, 60]\<rparr> \<and>
   take 2 (value_model_weights \<lparr>value_model_weights = [4, 6, 4], policy_model_weights = [4, 6, 60::int]\<rparr>) =
   take 2 (policy_model_weights \<lparr>value_model_weights = [4, 6, 4::int], policy_model_weights = [4, 6, 60]\<rparr>)"
proof -
  have h1: "n_shared_layers example_trainer = int 2"
    by (simp add: example_trainer_def)
  have h2: "0 < (2::nat)" by simp
  have h3: "\<forall>n m vw pw pw'. example_policy_epoch n m vw pw = Inr pw' \<longrightarrow> length pw' = length pw"
    by (auto simp: example_policy_epoch_def)
  have run: "train_epoch example_trainer example_value_epoch example_policy_epoch
     \<lparr>value_model_weights = [1, 2, 3], policy_model_weights = [10, 20, 30]\<rparr> =
     Inr \<lparr>value_model_weights = [4, 6, 4], policy_model_weights = [4, 6, 60]\<rparr>"
    by (simp add: train_epoch_def example_trainer_def example_value_epoch_def
        example_policy_epoch_def bind_res_def Let_def)
  from train_epoch_shares_prefix [OF h1 h2 h3, of example_value_epoch
      "\<lparr>value_model_weights = [1, 2, 3], policy_model_weights = [10, 20, 30]\<rparr>"] run h1 h2
  show ?thesis by simp
qed

subsection \<open>Arrays and the A2C deriver\<close>

lemma broadcast_rev_same: "broadcast_rev xs xs = Some xs"
  by (induction xs) auto

lemma broadcast_shapes_same: "broadcast_shapes s s = Some s"
  by (simp add: broadcast_shapes_def broadcast_rev_same)

lemma zip_stretch_id:
  "list_all2 (\<lambda>k d. k < d) i s \<Longrightarrow> map (\<lambda>(d, k). if d = 1 then 0 else k) (zip s i) = (i :: nat list)"
  by (induction i s rule: list_all2_induct) auto

lemma operand_index_in_range:
  assumes "in_range s i"
  shows "operand_index s i = i"
proof -
  from assms have a: "list_all2 (\<lambda>k d. k < d) i s"
    by (simp add: in_range_def)
  then have "length i = length s"
    by (rule list_all2_lengthD)
  with zip_stretch_id [OF a] show ?thesis
    by (simp add: operand_index_def)
qed

lemma elementwise_same_shape:
  "shape x = shape y \<Longrightarrow>
   elementwise f x y = Inr \<lparr>shape = shape x,
      elems = (\<lambda>i. f (elems x (operand_index (shape x) i)) (elems y (operand_index (shape x) i)))\<rparr>"
  by (simp add: elementwise_def broadcast_shapes_same)

lemma operand_index_2: "b < B \<Longrightarrow> t < L \<Longrightarrow> operand_index [B, L] [b, t] = [b, t]"
  by (rule operand_index_in_range) (simp add: in_range_def)

text \<open>
  Claim C6. On a slice of \<open>L + 1\<close> timesteps with value estimates of \<open>L + 1\<close> timesteps,
  the A2C deriver returns the triple of the observations, the actions and the advantages,
  where the advantages are \<^verbatim>\<open>returns[:, :-1] - values[:, :-1]\<close> and have time length \<open>L\<close>,
  while the observations and the actions are passed on unchanged, at time length
  \<open>L + 1\<close>.
\<close>

theorem A2C_policy_inputs_lengths:
  assumes "shape (observations tr) = B # Suc L # obs_rest"
    and "shape (actions tr) = B # Suc L # act_rest"
    and "shape (returns tr) = [B, Suc L]"
    and "shape values = [B, Suc L]"
  shows "\<exists>advantages.
      A2C_policy_inputs tr values = Inr (Tuple3 (observations tr) (actions tr) advantages) \<and>
      shape advantages = [B, L] \<and>
      (\<forall>b t. b < B \<and> t < L \<longrightarrow>
         elems advantages [b, t] = elems (returns tr) [b, t] - elems values [b, t]) \<and>
      shape (observations tr) ! 1 = L + 1 \<and> shape (actions tr) ! 1 = L + 1"
  using assms
  by (simp add: A2C_policy_inputs_def bind_res_def slice_but_last_def elementwise_same_shape
      operand_index_2)

theorem A2C_policy_inputs_lengths_witness:
  "\<exists>advantages.
      A2C_policy_inputs example_trajectory example_values =
        Inr (Tuple3 (observations example_trajectory) (actions example_trajectory) advantages) \<and>
      shape advantages = [2, 3] \<and>
      elems advantages [0, 0] = 3 \<and> elems advantages [1, 2] = - 3 \<and>
      shape (observations example_trajectory) = [2, 4] \<and>
      shape (actions example_trajectory) = [2, 4]"
proof -
  have h: "shape (observations example_trajectory) = 2 # Suc 3 # []"
    "shape (actions example_trajectory) = 2 # Suc 3 # []"
    "shape (returns example_trajectory) = [2, Suc 3]"
    "shape example_values = [2, Suc 3]"
    by (simp_all add: example_trajectory_def example_values_def of_rows_def)
  from A2C_policy_inputs_lengths [OF h] obtain advantages where
    a: "A2C_policy_inputs example_trajectory example_values =
        Inr (Tuple3 (observations example_trajectory) (actions example_trajectory) advantages)"
    and s: "shape advantages = [2, 3]"
    and e: "\<forall>b t. b < 2 \<and> t < 3 \<longrightarrow>
         elems advantages [b, t] =
           elems (returns example_trajectory) [b, t] - elems example_values [b, t]"
    by blast
  from e have "elems advantages [0, 0] = elems (returns example_trajectory) [0, 0] - elems example_values [0, 0]"
    "elems advantages [1, 2] = elems (returns example_trajectory) [1, 2] - elems example_values [1, 2]"
    by simp_all
  then have "elems advantages [0, 0] = 3" "elems advantages [1, 2] = - 3"
    by (simp_all add: example_trajectory_def example_values_def of_rows_def)
  with a s h show ?thesis by auto
qed

subsection \<open>The value batch stream\<close>

lemma value_batch_well_formed:
  assumes "well_formed_slice tr"
  shows "\<exists>targets weights.
      value_batch tr = Inr (observations tr, targets, weights) \<and>
      shape targets = take 2 (shape (observations tr)) @ [1] \<and>
      shape weights = take 2 (shape (observations tr)) @ [1] \<and>
      (\<forall>b t. elems targets [b, t, 0] = elems (returns tr) [b, t]) \<and>
      (\<forall>b t. elems weights [b, t, 0] = elems (mask tr) [b, t])"
  using assms
  by (simp add: well_formed_slice_def value_batch_def newaxis2_def bind_res_def)

lemma generate_all_ok:
  assumes "\<forall>n. \<exists>y. body (src n) = Inr y"
  shows "generate body src n = body (src n)"
proof (induction n)
  case 0
  show ?case by simp
next
  case (Suc n)
  from assms obtain y where "body (src n) = Inr y" by blast
  with Suc show ?case by simp
qed

text \<open>
  Claim C7. Every element of the value batch stream is a triple of the observations, the
  returns and the mask of the slice, where the returns and the mask have received a
  trailing axis of length one: their shape is the first two dimensions of the observations
  followed by 1. The slices of the task satisfy the invariant of trajectory slices.
\<close>

theorem value_batches_stream_shapes:
  assumes "\<forall>n. well_formed_slice (trajectory_batch_stream (task self) (value_request self) n)"
  shows "\<exists>obs targets weights.
      value_batches_stream self n = Inr (obs, targets, weights) \<and>
      obs = observations (trajectory_batch_stream (task self) (value_request self) n) \<and>
      shape targets = take 2 (shape obs) @ [1] \<and>
      shape weights = take 2 (shape obs) @ [1] \<and>
      (\<forall>b t. elems targets [b, t, 0] =
         elems (returns (trajectory_batch_stream (task self) (value_request self) n)) [b, t]) \<and>
      (\<forall>b t. elems weights [b, t, 0] =
         elems (mask (trajectory_batch_stream (task self) (value_request self) n)) [b, t])"
proof -
  let ?src = "trajectory_batch_stream (task self) (value_request self)"
  have ok: "\<forall>n. \<exists>y. value_batch (?src n) = Inr y"
    using assms value_batch_well_formed by blast
  have "value_batches_stream self n = value_batch (?src n)"
    unfolding value_batches_stream_def using ok by (rule generate_all_ok [where body = value_batch])
  moreover from assms have "well_formed_slice (?src n)" by blast
  ultimately show ?thesis
    using value_batch_well_formed [of "?src n"] by auto
qed

theorem value_batches_stream_shapes_witness:
  "\<exists>obs targets weights.
      value_batches_stream example_trainer 5 = Inr (obs, targets, weights) \<and>
      shape obs = [2, 4] \<and> shape targets = [2, 4, 1] \<and> shape weights = [2, 4, 1] \<and>
      elems targets [0, 1, 0] = 2 \<and> elems weights [1, 3, 0] = 1"
proof -
  have h: "\<forall>n. well_formed_slice
      (trajectory_batch_stream (task example_trainer) (value_request example_trainer) n)"
    by (simp add: well_formed_slice_def example_trainer_def example_task_def
        example_trajectory_def of_rows_def)
  from value_batches_stream_shapes [OF h, of 5] obtain obs targets weights where
    v: "value_batches_stream example_trainer 5 = Inr (obs, targets, weights)"
    and o: "obs = observations (trajectory_batch_stream (task example_trainer)
        (value_request example_trainer) 5)"
    and s: "shape targets = take 2 (shape obs) @ [1]" "shape weights = take 2 (shape obs) @ [1]"
    and e: "\<forall>b t. elems targets [b, t, 0] =
         elems (returns (trajectory_batch_stream (task example_trainer)
           (value_request example_trainer) 5)) [b, t]"
      "\<forall>b t. elems weights [b, t, 0] =
         elems (mask (trajectory_batch_stream (task example_trainer)
           (value_request example_trainer) 5)) [b, t]"
    by blast
  from o have so: "shape obs = [2, 4]"
    by (simp add: example_trainer_def example_task_def example_trajectory_def of_rows_def)
  from e have "elems targets [0, 1, 0] = 2" "elems weights [1, 3, 0] = 1"
    by (simp_all add: example_trainer_def example_task_def example_trajectory_def of_rows_def)
  with v s so show ?thesis by auto
qed

subsection \<open>The policy batch stream\<close>

lemma generate_pull:
  "generate body src n =
     (if 0 < n \<and> isl (generate body src (n - 1)) then Inl StopIteration else body (src n))"
  by (cases n) (auto split: sum.splits)

lemma map_int_eq: "map int xs = ys \<Longrightarrow> xs = map nat ys"
  by (induction xs arbitrary: ys) auto

lemma policy_batch_cases:
  "policy_batch self deriver value_model L (vw, tr) =
     (case value_model vw (observations tr) of
        Inl e \<Rightarrow> Inl e
      | Inr v \<Rightarrow>
          (if map int (shape v) = [policy_batch_size self, L + 1, 1]
           then deriver tr \<lparr>shape = [nat (policy_batch_size self), nat (L + 1)],
                  elems = (\<lambda>i. elems v (take 2 i @ [0] @ drop 2 i))\<rparr>
           else Inl AssertionError))"
proof (cases "value_model vw (observations tr)")
  case (Inl e)
  then show ?thesis
    by (simp add: policy_batch_def bind_res_def)
next
  case (Inr v)
  show ?thesis
  proof (cases "map int (shape v) = [policy_batch_size self, L + 1, 1]")
    case True
    then have "shape v = map nat [policy_batch_size self, L + 1, 1]"
      by (rule map_int_eq)
    with True Inr show ?thesis
      by (simp add: policy_batch_def bind_res_def assert_shape_equals_def squeeze_axis2_def)
  next
    case False
    with Inr show ?thesis
      by (simp add: policy_batch_def bind_res_def assert_shape_equals_def)
  qed
qed

lemma policy_batches_stream_Some:
  "max_slice_length self = Some L \<Longrightarrow>
   policy_batches_stream self deriver value_model weights_at =
     generate (policy_batch self deriver value_model L)
       (\<lambda>n. (weights_at n, trajectory_batch_stream (task self) (policy_request self L) n))"
  by (simp add: policy_batches_stream_def)

text \<open>
  Claim C3. At every pull of the policy batch stream the output of the value model on the
  observations of the slice is compared with the shape
  \<open>[policy_batch_size, L + 1, 1]\<close> before the last axis is squeezed. Any other shape
  (for instance \<open>[batch, L + 1, 2]\<close>) raises the assertion error and no batch is produced;
  otherwise the deriver receives value estimates of shape \<open>[batch, L + 1]\<close>.
\<close>

theorem policy_batches_stream_shape_check:
  assumes "max_slice_length self = Some L"
    and "value_model (weights_at n)
           (observations (trajectory_batch_stream (task self) (policy_request self L) n)) = Inr v"
  shows "policy_batches_stream self deriver value_model weights_at n =
     (if 0 < n \<and> isl (policy_batches_stream self deriver value_model weights_at (n - 1))
      then Inl StopIteration
      else if map int (shape v) = [policy_batch_size self, L + 1, 1]
      then deriver (trajectory_batch_stream (task self) (policy_request self L) n)
             \<lparr>shape = [nat (policy_batch_size self), nat (L + 1)],
              elems = (\<lambda>i. elems v (take 2 i @ [0] @ drop 2 i))\<rparr>
      else Inl AssertionError)"
proof -
  let ?body = "policy_batch self deriver value_model L"
  let ?src = "\<lambda>n. (weights_at n, trajectory_batch_stream (task self) (policy_request self L) n)"
  have body: "?body (?src n) =
     (if map int (shape v) = [policy_batch_size self, L + 1, 1]
      then deriver (trajectory_batch_stream (task self) (policy_request self L) n)
             \<lparr>shape = [nat (policy_batch_size self), nat (L + 1)],
              elems = (\<lambda>i. elems v (take 2 i @ [0] @ drop 2 i))\<rparr>
      else Inl AssertionError)"
    using assms(2) by (simp add: policy_batch_cases)
  have "generate ?body ?src n =
     (if 0 < n \<and> isl (generate ?body ?src (n - 1)) then Inl StopIteration else ?body (?src n))"
    by (rule generate_pull)
  with body show ?thesis
    by (simp only: policy_batches_stream_Some [OF assms(1)])
qed

theorem policy_batches_stream_shape_check_witness:
  "policy_batches_stream example_trainer A2C_policy_inputs example_value_model (\<lambda>n. []) 0 =
     A2C_policy_inputs example_trajectory
       \<lparr>shape = [2, 4], elems = (\<lambda>i. elems example_values (take 2 (take 2 i @ [0] @ drop 2 i)))\<rparr> \<and>
   policy_batches_stream example_trainer A2C_policy_inputs two_output_value_model (\<lambda>n. []) 0 =
     Inl AssertionError"
proof -
  have L: "max_slice_length example_trainer = Some 3"
    by (simp add: example_trainer_def)
  have good: "example_value_model ((\<lambda>n. []) (0::nat))
      (observations (trajectory_batch_stream (task example_trainer) (policy_request example_trainer 3) 0)) =
      Inr \<lparr>shape = [2, 4, 1], elems = (\<lambda>i. elems example_values (take 2 i))\<rparr>"
    by (simp add: example_value_model_def example_trainer_def example_task_def
        example_trajectory_def of_rows_def)
  have bad: "two_output_value_model ((\<lambda>n. []) (0::nat))
      (observations (trajectory_batch_stream (task example_trainer) (policy_request example_trainer 3) 0)) =
      Inr \<lparr>shape = [2, 4, 2], elems = (\<lambda>i. elems example_values (take 2 i))\<rparr>"
    by (simp add: two_output_value_model_def example_trainer_def example_task_def
        example_trajectory_def of_rows_def)
  from policy_batches_stream_shape_check [where value_model = example_value_model
           and weights_at = "\<lambda>n. []" and n = 0 and deriver = A2C_policy_inputs, OF L good]
       policy_batches_stream_shape_check [where value_model = two_output_value_model
           and weights_at = "\<lambda>n. []" and n = 0 and deriver = A2C_policy_inputs, OF L bad]
  show ?thesis
    by (simp add: example_trainer_def example_task_def)
qed

lemma example_value_model_output:
  "example_value_model w (observations example_trajectory) =
     Inr \<lparr>shape = [2, 4, 1], elems = (\<lambda>i. elems example_values (take 2 i))\<rparr>"
  by (simp add: example_value_model_def example_trajectory_def of_rows_def)

text \<open>
  Claim C5. The claim is that a policy batch requested from the base trainer fails with an
  unimplemented-derivation error. The base \<^verbatim>\<open>policy_inputs\<close> returns the exception class
  instead of raising it, so the first pull of the stream succeeds and its batch is the
  class object \<^verbatim>\<open>NotImplementedError\<close>.
\<close>

theorem base_policy_batch_returns_exception_class:
  "policy_batches_stream example_trainer ActorCriticTrainer_policy_inputs example_value_model
     (\<lambda>n. []) 0 = Inr (ExceptionClass NotImplementedError)"
proof -
  have "policy_batch example_trainer ActorCriticTrainer_policy_inputs example_value_model 3
      ([], example_trajectory) = Inr (ExceptionClass NotImplementedError)"
    by (simp add: policy_batch_cases example_value_model_output
        ActorCriticTrainer_policy_inputs_def example_trainer_def)
  then show ?thesis
    by (simp add: policy_batches_stream_def example_trainer_def example_task_def)
qed

lemma selected_generations_last:
  assumes "history \<noteq> []"
  shows "selected_generations history (Some [- 1]) = [last history]"
proof -
  have "0 < int (length history)" using assms by simp
  then have "(- 1) mod int (length history) = int (length history) - 1"
    by (simp add: zmod_minus1)
  then have "nat ((- 1) mod int (length history)) = length history - 1"
    by simp
  with assms show ?thesis
    by (simp add: selected_generations_def last_conv_nth)
qed

lemma eligible_trajectories_cases:
  assumes "gens \<noteq> []"
  shows "eligible_trajectories gens (if on_pol then Some [- 1] else None) =
           (if on_pol then last gens else concat gens)"
  using assms by (simp add: eligible_trajectories_def selected_generations_last)
    (simp add: selected_generations_def)

lemma drawn_trajectories_subset:
  assumes "pool \<noteq> []"
  shows "set (drawn_trajectories src pool batch uniform n) \<subseteq> set pool"
  using assms by (auto simp: drawn_trajectories_def)

text \<open>
  Claim C8. The policy batch stream asks the task for slices with the policy batch size, a
  slice length of \<open>L + 1\<close> (the value stream asks for \<open>L\<close>), the final state included and
  uniform sampling, with the epoch filter \<open>[-1]\<close> when the trainer is on-policy and
  \<^verbatim>\<open>None\<close> otherwise. On the Trajectory Source of the specification every batch of the
  stream is therefore cut, at slice length \<open>L + 1\<close> and with the final state, from
  trajectories drawn uniformly from the most recent generation when the trainer is
  on-policy, and from all retained generations otherwise.
\<close>

theorem policy_batches_stream_sampling:
  assumes "max_slice_length self = Some L"
    and "task self = source_task src"
    and "generations src \<noteq> []" and "last (generations src) \<noteq> []"
  shows "policy_request self L =
      \<lparr>req_batch_size = policy_batch_size self,
       req_epochs = Passed (if on_policy self then Some [- 1] else None),
       req_max_slice_length = Passed (Some (L + 1)),
       req_include_final_state = Passed True,
       req_sample_trajectories_uniformly = Passed True\<rparr> \<and>
    req_max_slice_length (value_request self) = Passed (Some L) \<and>
    policy_batches_stream self deriver value_model weights_at =
      generate (policy_batch self deriver value_model L)
        (\<lambda>n. (weights_at n,
           cut src
             (drawn_trajectories src
                (if on_policy self then last (generations src) else concat (generations src))
                (policy_batch_size self) True n)
             (Some (L + 1)) True n)) \<and>
    (\<forall>n. set (drawn_trajectories src
                (if on_policy self then last (generations src) else concat (generations src))
                (policy_batch_size self) True n)
          \<subseteq> (if on_policy self then set (last (generations src))
              else \<Union> (set ` set (generations src))))"
proof (intro conjI allI)
  show "policy_request self L =
      \<lparr>req_batch_size = policy_batch_size self,
       req_epochs = Passed (if on_policy self then Some [- 1] else None),
       req_max_slice_length = Passed (Some (L + 1)),
       req_include_final_state = Passed True,
       req_sample_trajectories_uniformly = Passed True\<rparr>"
    by (simp add: policy_request_def)
next
  show "req_max_slice_length (value_request self) = Passed (Some L)"
    using assms(1) by (simp add: value_request_def)
next
  have "trajectory_batch_stream (task self) (policy_request self L) n =
      cut src
        (drawn_trajectories src
           (if on_policy self then last (generations src) else concat (generations src))
           (policy_batch_size self) True n)
        (Some (L + 1)) True n" for n
    using eligible_trajectories_cases [OF assms(3), of "on_policy self"]
    by (simp add: assms(2) source_task_def policy_request_def passed_or_def)
  then show "policy_batches_stream self deriver value_model weights_at =
      generate (policy_batch self deriver value_model L)
        (\<lambda>n. (weights_at n,
           cut src
             (drawn_trajectories src
                (if on_policy self then last (generations src) else concat (generations src))
                (policy_batch_size self) True n)
             (Some (L + 1)) True n))"
    by (simp add: policy_batches_stream_Some [OF assms(1)])
next
  fix n
  have last_in: "last (generations src) \<in> set (generations src)"
    using assms(3) by simp
  then have "concat (generations src) \<noteq> []"
    using assms(4) by auto
  with assms(4) have "(if on_policy self then last (generations src)
      else concat (generations src)) \<noteq> []"
    by simp
  from drawn_trajectories_subset [OF this, of src "policy_batch_size self" True n]
  show "set (drawn_trajectories src
                (if on_policy self then last (generations src) else concat (generations src))
                (policy_batch_size self) True n)
          \<subseteq> (if on_policy self then set (last (generations src))
              else \<Union> (set ` set (generations src)))"
    by (auto split: if_splits)
qed

theorem policy_batches_stream_sampling_witness:
  "policy_batches_stream on_policy_trainer A2C_policy_inputs example_value_model (\<lambda>n. []) =
      generate (policy_batch on_policy_trainer A2C_policy_inputs example_value_model 3)
        (\<lambda>n. ([], cut example_source
                     (drawn_trajectories example_source [2, 3] 2 True n) (Some 4) True n)) \<and>
   drawn_trajectories example_source [2, 3] 2 True 0 = [2, 3] \<and>
   policy_batches_stream off_policy_trainer A2C_policy_inputs example_value_model (\<lambda>n. []) =
      generate (policy_batch off_policy_trainer A2C_policy_inputs example_value_model 3)
        (\<lambda>n. ([], cut example_source
                     (drawn_trajectories example_source [1, 2, 3] 2 True n) (Some 4) True n)) \<and>
   drawn_trajectories example_source [1, 2, 3] 2 True 0 = [1, 2] \<and>
   req_max_slice_length (policy_request on_policy_trainer 3) = Passed (Some 4) \<and>
   req_max_slice_length (value_request on_policy_trainer) = Passed (Some 3)"
proof -
  have on: "max_slice_length on_policy_trainer = Some 3"
    "task on_policy_trainer = source_task example_source"
    and off: "max_slice_length off_policy_trainer = Some 3"
    "task off_policy_trainer = source_task example_source"
    and gens: "generations example_source \<noteq> []" "last (generations example_source) \<noteq> []"
    by (simp_all add: on_policy_trainer_def off_policy_trainer_def example_source_def)
  have vals: "on_policy on_policy_trainer" "\<not> on_policy off_policy_trainer"
    "policy_batch_size on_policy_trainer = 2" "policy_batch_size off_policy_trainer = 2"
    "last (generations example_source) = [2, 3]"
    "concat (generations example_source) = [1, 2, 3]"
    by (simp_all add: on_policy_trainer_def off_policy_trainer_def example_source_def)
  have draws: "drawn_trajectories example_source [2, 3] 2 True 0 = [2, 3]"
    "drawn_trajectories example_source [1, 2, 3] 2 True 0 = [1, 2]"
    by (simp_all add: drawn_trajectories_def example_source_def)
  from policy_batches_stream_sampling [where deriver = A2C_policy_inputs
         and value_model = example_value_model and weights_at = "\<lambda>n. []", OF on gens]
       policy_batches_stream_sampling [where deriver = A2C_policy_inputs
         and value_model = example_value_model and weights_at = "\<lambda>n. []", OF off gens]
  show ?thesis
    by (simp add: vals draws)
qed

subsection \<open>Constructors\<close>

lemma ActorCriticTrainer_init_fields:
  assumes "ActorCriticTrainer_init PolicyTrainer_init tsk kw = Inr self"
  shows "on_policy self = (case kw_on_policy kw of None \<Rightarrow> True | Some b \<Rightarrow> b)"
    and "value_output_dir self =
           (case kw_output_dir kw of None \<Rightarrow> None | Some d \<Rightarrow> Some (posix_join d ''/value''))"
  using assms
  by (auto simp: ActorCriticTrainer_init_def bind_res_def Let_def split: sum.splits prod.splits)

lemma example_first_value_batch:
  "task self = example_task \<Longrightarrow> \<exists>b. value_batches_stream self 0 = Inr b"
  by (simp add: value_batches_stream_def value_batch_def newaxis2_def bind_res_def
      example_task_def example_trajectory_def of_rows_def)

lemma example_init:
  "\<exists>self. ActorCriticTrainer_init example_PolicyTrainer_init example_task kw = Inr self"
proof -
  let ?self = "\<lparr>task = example_task,
                  on_policy = (case kw_on_policy kw of None \<Rightarrow> True | Some b \<Rightarrow> b),
                  n_shared_layers = (case kw_n_shared_layers kw of None \<Rightarrow> 0 | Some n \<Rightarrow> n),
                  value_batch_size = (case kw_value_batch_size kw of None \<Rightarrow> 64 | Some n \<Rightarrow> n),
                  value_train_steps_per_epoch =
                    (case kw_value_train_steps_per_epoch kw of None \<Rightarrow> 500 | Some n \<Rightarrow> n),
                  max_slice_length = kw_max_slice_length kw,
                  value_output_dir =
                    (case kw_output_dir kw of
                       None \<Rightarrow> None
                     | Some d \<Rightarrow> Some (posix_join d ''/value'')),
                  policy_batch_size = 0,
                  policy_train_steps_per_epoch = 0\<rparr>"
  have "task ?self = example_task" by simp
  then obtain b where "value_batches_stream ?self 0 = Inr b"
    using example_first_value_batch by blast
  then show ?thesis
    by (simp add: ActorCriticTrainer_init_def bind_res_def example_PolicyTrainer_init_def)
qed

text \<open>
  Claim C9. The constructor of \<^verbatim>\<open>AWRTrainer\<close> passes \<^verbatim>\<open>on_policy=False\<close> to the parent
  constructor whatever the caller configures: every AWR trainer it returns is off-policy,
  and its policy batch stream passes the epoch filter \<^verbatim>\<open>None\<close> (the whole history), never
  \<open>[-1]\<close>. A caller who passes \<^verbatim>\<open>on_policy\<close> gets the \<^verbatim>\<open>TypeError\<close> of a keyword
  given twice.
\<close>

theorem AWRTrainer_init_off_policy:
  "(kw_on_policy kwargs \<noteq> None \<longrightarrow>
      AWRTrainer_init PolicyTrainer_init tsk beta_arg w_max_arg kwargs = Inl TypeError) \<and>
   (\<forall>self. AWRTrainer_init PolicyTrainer_init tsk beta_arg w_max_arg kwargs = Inr self \<longrightarrow>
      on_policy self = False \<and>
      (\<forall>L. req_epochs (policy_request self L) = Passed None \<and>
           req_epochs (policy_request self L) \<noteq> Passed (Some [- 1])))"
proof (intro conjI impI allI)
  assume "kw_on_policy kwargs \<noteq> None"
  then show "AWRTrainer_init PolicyTrainer_init tsk beta_arg w_max_arg kwargs = Inl TypeError"
    by (auto simp: AWRTrainer_init_def)
next
  fix self :: "('a, 'b) AWRTrainer" and L
  assume a: "AWRTrainer_init PolicyTrainer_init tsk beta_arg w_max_arg kwargs = Inr self"
  then obtain base where
    b: "ActorCriticTrainer_init PolicyTrainer_init tsk (kwargs\<lparr>kw_on_policy := Some False\<rparr>) = Inr base"
    and s: "self = ActorCriticTrainer.extend base
                   (AWRTrainer.fields (case beta_arg of None \<Rightarrow> 1 | Some b \<Rightarrow> b)
                                      (case w_max_arg of None \<Rightarrow> 20 | Some w \<Rightarrow> w))"
    by (auto simp: AWRTrainer_init_def bind_res_def split: option.splits sum.splits)
  from ActorCriticTrainer_init_fields(1) [OF b] have "on_policy base = False"
    by simp
  with s show off: "on_policy self = False"
    by (simp add: ActorCriticTrainer.defs)
  then show "req_epochs (policy_request self L) = Passed None"
    by (simp add: policy_request_def)
  from off show "req_epochs (policy_request self L) \<noteq> Passed (Some [- 1])"
    by (simp add: policy_request_def)
qed


lemma example_AWR_init:
  assumes "kw_on_policy kw = None"
  shows "\<exists>self. AWRTrainer_init example_PolicyTrainer_init example_task b w kw = Inr self"
proof -
  from example_init [of "kw\<lparr>kw_on_policy := Some False\<rparr>"] obtain base where
    "ActorCriticTrainer_init example_PolicyTrainer_init example_task
       (kw\<lparr>kw_on_policy := Some False\<rparr>) = Inr base"
    by blast
  with assms show ?thesis
    by (simp add: AWRTrainer_init_def bind_res_def)
qed

theorem AWRTrainer_init_off_policy_witness:
  "AWRTrainer_init example_PolicyTrainer_init example_task None None
     (no_keywords\<lparr>kw_on_policy := Some True\<rparr>) = Inl TypeError \<and>
   (\<exists>self. AWRTrainer_init example_PolicyTrainer_init example_task None None
             (no_keywords\<lparr>kw_max_slice_length := Some 3\<rparr>) = Inr self \<and>
           on_policy self = False \<and>
           req_epochs (policy_request self 3) = Passed None)"
proof -
  have "kw_on_policy (no_keywords\<lparr>kw_on_policy := Some True\<rparr>) \<noteq> None"
    by simp
  with AWRTrainer_init_off_policy [of "no_keywords\<lparr>kw_on_policy := Some True\<rparr>"
      example_PolicyTrainer_init example_task None None]
  have first: "AWRTrainer_init example_PolicyTrainer_init example_task None None
     (no_keywords\<lparr>kw_on_policy := Some True\<rparr>) = Inl TypeError"
    by blast
  have "kw_on_policy (no_keywords\<lparr>kw_max_slice_length := Some 3\<rparr>) = None"
    by (simp add: no_keywords_def)
  then obtain self where
    self: "AWRTrainer_init example_PolicyTrainer_init example_task None None
             (no_keywords\<lparr>kw_max_slice_length := Some 3\<rparr>) = Inr self"
    using example_AWR_init by blast
  with AWRTrainer_init_off_policy [of "no_keywords\<lparr>kw_max_slice_length := Some 3\<rparr>"
      example_PolicyTrainer_init example_task None None]
  have "on_policy self = False \<and> req_epochs (policy_request self 3) = Passed None"
    by blast
  with first self show ?thesis by blast
qed

lemma take_slash_value:
  assumes "0 < n" "n < 6" "last (take n ''/value'') = CHR ''/''"
  shows "n = 1"
proof -
  from assms(1,2) have "n = 1 \<or> n = 2 \<or> n = 3 \<or> n = 4 \<or> n = 5" by arith
  with assms(3) show ?thesis
    by (auto simp: numeral_eq_Suc)
qed

lemma subdirectory_of_slash_value: "subdirectory_of ''/value'' d \<longleftrightarrow> d = ''/''"
proof
  assume sub: "subdirectory_of ''/value'' d"
  define dd where "dd = (if last d = CHR ''/'' then d else d @ ''/'')"
  from sub have d: "d \<noteq> []" and len: "length dd < 6" and tk: "take (length dd) ''/value'' = dd"
    by (simp_all add: subdirectory_of_def dd_def Let_def)
  have nonempty: "0 < length dd" using d by (simp add: dd_def)
  have "last dd = CHR ''/''" by (simp add: dd_def)
  with tk have "last (take (length dd) ''/value'') = CHR ''/''" by simp
  with nonempty len have "length dd = 1" by (rule take_slash_value)
  with d show "d = ''/''"
    by (cases d) (auto simp: dd_def split: if_splits)
next
  assume "d = ''/''"
  then show "subdirectory_of ''/value'' d"
    by (simp add: subdirectory_of_def)
qed

text \<open>
  Claim C10, as amended. For every configured output directory \<open>d\<close> the output directory
  of the value trainer is \<^verbatim>\<open>os.path.join(d, '/value')\<close>, which is the path \<^verbatim>\<open>/value\<close>
  and does not depend on \<open>d\<close>. It lies below the configured directory exactly when
  \<open>d\<close> is the root directory \<^verbatim>\<open>/\<close>.
\<close>

theorem value_output_dir_is_slash_value:
  assumes "ActorCriticTrainer_init PolicyTrainer_init tsk kw = Inr self"
    and "kw_output_dir kw = Some d"
  shows "value_output_dir self = Some ''/value'' \<and>
         (subdirectory_of ''/value'' d \<longleftrightarrow> d = ''/'')"
  using ActorCriticTrainer_init_fields(2) [OF assms(1)] assms(2)
  by (simp add: posix_join_def subdirectory_of_slash_value)

theorem value_output_dir_is_slash_value_witness:
  "map_sum id value_output_dir
     (ActorCriticTrainer_init example_PolicyTrainer_init example_task
        (no_keywords\<lparr>kw_output_dir := Some ''out''\<rparr>)) = Inr (Some ''/value'') \<and>
   \<not> subdirectory_of ''/value'' ''out''"
proof -
  obtain self where
    self: "ActorCriticTrainer_init example_PolicyTrainer_init example_task
        (no_keywords\<lparr>kw_output_dir := Some ''out''\<rparr>) = Inr self"
    using example_init by blast
  have "kw_output_dir (no_keywords\<lparr>kw_output_dir := Some ''out''\<rparr>) = Some ''out''"
    by simp
  from value_output_dir_is_slash_value [OF self this] self show ?thesis
    by simp
qed

text \<open>
  Claim C10 as stated says that the value directory is below the configured directory for
  no choice of \<open>d\<close>. With the root directory configured it is.
\<close>

theorem value_output_dir_root_counterexample:
  "map_sum id value_output_dir
     (ActorCriticTrainer_init example_PolicyTrainer_init example_task
        (no_keywords\<lparr>kw_output_dir := Some ''/''\<rparr>)) = Inr (Some ''/value'') \<and>
   subdirectory_of ''/value'' ''/''"
proof -
  obtain self where
    self: "ActorCriticTrainer_init example_PolicyTrainer_init example_task
        (no_keywords\<lparr>kw_output_dir := Some ''/''\<rparr>) = Inr self"
    using example_init by blast
  from ActorCriticTrainer_init_fields(2) [OF self] have "value_output_dir self = Some ''/value''"
    by (simp add: posix_join_def)
  with self show ?thesis
    by (simp add: subdirectory_of_def)
qed

subsection \<open>The AWR deriver\<close>

lemma exp_two_le: "exp (2::real) \<le> 9"
proof -
  have "exp (2::real) = exp 1 * exp 1"
    by (simp flip: exp_add)
  also have "\<dots> \<le> 3 * 3"
    by (intro mult_mono exp_le) simp_all
  finally show ?thesis by simp
qed

lemma exp_199_bounds:
  "7315 / 1000 < exp (199 / 100 :: real) \<and> exp (199 / 100 :: real) < 7316 / 1000"
proof -
  obtain t :: real where t: "\<bar>t\<bar> \<le> \<bar>199 / 100\<bar>"
    and e: "exp (199 / 100 :: real) =
      (\<Sum>m<12. (199 / 100) ^ m / fact m) + exp t / fact 12 * (199 / 100) ^ 12"
    using Maclaurin_exp_le [of "199 / 100" 12] by blast
  have pos: "0 < exp t" by simp
  have "t \<le> 2" using t by auto
  then have "exp t \<le> exp 2" by simp
  then have up: "exp t \<le> 9" using exp_two_le by linarith
  have lo: "7315 / 1000 < (\<Sum>m<12. (199 / 100 :: real) ^ m / fact m)"
    by (simp add: numeral_eq_Suc)
  have hi: "(\<Sum>m<12. (199 / 100 :: real) ^ m / fact m) + 9 / fact 12 * (199 / 100) ^ 12
      < 7316 / 1000"
    by (simp add: numeral_eq_Suc)
  have r0: "0 < exp t / fact 12 * (199 / 100 :: real) ^ 12"
    using pos by simp
  have r1: "exp t / fact 12 * (199 / 100 :: real) ^ 12 \<le> 9 / fact 12 * (199 / 100) ^ 12"
    using up by (intro mult_right_mono divide_right_mono) simp_all
  from lo hi r0 r1 e show ?thesis by linarith
qed

text \<open>The exponential of 700 is below \<open>2 ^ 1075\<close>, that of 967.5 is not.\<close>

lemma exp_700_less: "exp (700 :: real) < 2 ^ 1075"
proof -
  have "exp (7 / 86 :: real) \<le> 1 + 7 / 86 + (7 / 86)\<^sup>2"
    by (rule exp_bound) simp_all
  then have "exp (7 / 86 :: real) ^ 8 \<le> (1 + 7 / 86 + (7 / 86)\<^sup>2) ^ 8"
    by (intro power_mono) simp_all
  also have "\<dots> < (2 :: real)"
    by (simp add: power2_eq_square power_divide)
  finally have "(exp (7 / 86 :: real) ^ 8) ^ 1075 < 2 ^ 1075"
    by (intro power_strict_mono) simp_all
  moreover have "exp (700 :: real) = exp (of_nat (8 * 1075) * (7 / 86))"
    by simp
  ultimately show ?thesis
    by (simp only: exp_of_nat_mult power_mult)
qed

lemma exp_967_greater: "2 ^ 1075 \<le> exp (967 + 1 / 2 :: real)"
proof -
  have "(2 :: real) \<le> 1 + 9 / 10 + (9 / 10)\<^sup>2 / 2"
    by (simp add: power2_eq_square)
  also have "\<dots> \<le> exp (9 / 10)"
    by (rule exp_lower_Taylor_quadratic) simp
  finally have "(2 :: real) ^ 1075 \<le> exp (9 / 10) ^ 1075"
    by (intro power_mono) simp_all
  moreover have "exp (967 + 1 / 2 :: real) = exp (of_nat 1075 * (9 / 10))"
    by simp
  ultimately show ?thesis
    by (simp only: exp_of_nat_mult)
qed

lemma np_exp_exact:
  assumes "- 700 \<le> x"
  shows "np_exp x = exp x"
proof -
  have "exp (- x) \<le> exp 700"
    using assms by simp
  also have "\<dots> < 2 ^ 1075"
    by (rule exp_700_less)
  finally have "1 / 2 ^ 1075 < 1 / exp (- x)"
    by (intro divide_strict_left_mono) simp_all
  then have "1 / 2 ^ 1075 < exp x"
    by (simp add: exp_minus field_simps)
  then show ?thesis
    by (simp add: np_exp_def)
qed

lemma np_exp_underflow:
  assumes "x \<le> - (967 + 1 / 2)"
  shows "np_exp x = 0"
proof -
  have "(2 :: real) ^ 1075 \<le> exp (967 + 1 / 2)"
    by (rule exp_967_greater)
  also have "\<dots> \<le> exp (- x)"
    using assms by simp
  finally have "1 / exp (- x) \<le> 1 / 2 ^ 1075"
    by (intro divide_left_mono) simp_all
  then have "exp x \<le> 1 / 2 ^ 1075"
    by (simp add: exp_minus field_simps)
  then show ?thesis
    by (simp add: np_exp_def)
qed

lemma np_exp_nonneg: "0 \<le> np_exp x"
  by (simp add: np_exp_def)

lemma AWR_policy_inputs_result:
  assumes "shape (observations tr) = B # Suc L # obs_rest"
    and "shape (actions tr) = B # Suc L # act_rest"
    and "shape (rewards tr) = [B, Suc L]"
    and "shape values = [B, Suc L]"
    and "beta self \<noteq> 0"
  shows "\<exists>weights.
      AWR_policy_inputs self tr values =
        Inr (Tuple3 \<lparr>shape = B # L # obs_rest, elems = elems (observations tr)\<rparr>
                    \<lparr>shape = B # L # act_rest, elems = elems (actions tr)\<rparr> weights) \<and>
      shape weights = [B, L] \<and>
      (\<forall>b t. b < B \<and> t < L \<longrightarrow>
         elems weights [b, t] =
           min (np_exp ((elems (rewards tr) [b, t] + gamma (task self) * elems values [b, Suc t]
                       - elems values [b, t]) / beta self))
               (w_max self))"
  using assms
  by (simp add: AWR_policy_inputs_def bind_res_def slice_but_last_def slice_from_1_def
      elementwise_same_shape map_nd_def operand_index_2 awr_weight_def)

text \<open>
  Claim C4, as amended. On a slice of \<open>L + 1\<close> timesteps with value estimates of
  \<open>L + 1\<close> timesteps the AWR deriver returns
  \<^verbatim>\<open>(observations[:, :-1], actions[:, :-1], weights)\<close> with
  \<open>weight = min (exp ((reward + \<gamma> \<cdot> value[t+1] - value[t]) / \<beta>)) w_max\<close>, where the
  exponential is that of the floats, which underflows to 0. For \<open>\<beta> > 0\<close> and
  \<open>w_max \<ge> 0\<close> every weight satisfies \<open>0 \<le> weight \<le> w_max\<close>. For
  \<open>\<gamma> = 0.99\<close>, \<open>\<beta> = 1\<close>, \<open>w_max = 20\<close>, reward 1, value 0 and next value 1 the
  advantage is 1.99 and the weight is \<open>exp 1.99\<close>, which rounds to 7.32.
\<close>

theorem AWR_policy_inputs_weights:
  assumes "shape (observations tr) = B # Suc L # obs_rest"
    and "shape (actions tr) = B # Suc L # act_rest"
    and "shape (rewards tr) = [B, Suc L]"
    and "shape values = [B, Suc L]"
    and "0 < beta self" and "0 \<le> w_max self"
  shows "\<exists>weights.
      AWR_policy_inputs self tr values =
        Inr (Tuple3 \<lparr>shape = B # L # obs_rest, elems = elems (observations tr)\<rparr>
                    \<lparr>shape = B # L # act_rest, elems = elems (actions tr)\<rparr> weights) \<and>
      shape weights = [B, L] \<and>
      (\<forall>b t. b < B \<and> t < L \<longrightarrow>
         elems weights [b, t] =
           min (np_exp ((elems (rewards tr) [b, t] + gamma (task self) * elems values [b, Suc t]
                       - elems values [b, t]) / beta self))
               (w_max self) \<and>
         0 \<le> elems weights [b, t] \<and> elems weights [b, t] \<le> w_max self \<and>
         (gamma (task self) = 99 / 100 \<and> beta self = 1 \<and> w_max self = 20 \<and>
          elems (rewards tr) [b, t] = 1 \<and> elems values [b, t] = 0 \<and>
          elems values [b, Suc t] = 1 \<longrightarrow>
            elems (rewards tr) [b, t] + gamma (task self) * elems values [b, Suc t]
              - elems values [b, t] = 199 / 100 \<and>
            elems weights [b, t] = exp (199 / 100) \<and>
            \<bar>elems weights [b, t] - 732 / 100\<bar> < 5 / 1000))"
proof -
  from assms(5) have "beta self \<noteq> 0" by simp
  from AWR_policy_inputs_result [OF assms(1-4) this] obtain weights where
    r: "AWR_policy_inputs self tr values =
        Inr (Tuple3 \<lparr>shape = B # L # obs_rest, elems = elems (observations tr)\<rparr>
                    \<lparr>shape = B # L # act_rest, elems = elems (actions tr)\<rparr> weights)"
    and s: "shape weights = [B, L]"
    and w: "\<forall>b t. b < B \<and> t < L \<longrightarrow>
         elems weights [b, t] =
           min (np_exp ((elems (rewards tr) [b, t] + gamma (task self) * elems values [b, Suc t]
                       - elems values [b, t]) / beta self))
               (w_max self)"
    by blast
  have "elems weights [b, t] =
           min (np_exp ((elems (rewards tr) [b, t] + gamma (task self) * elems values [b, Suc t]
                       - elems values [b, t]) / beta self))
               (w_max self) \<and>
         0 \<le> elems weights [b, t] \<and> elems weights [b, t] \<le> w_max self \<and>
         (gamma (task self) = 99 / 100 \<and> beta self = 1 \<and> w_max self = 20 \<and>
          elems (rewards tr) [b, t] = 1 \<and> elems values [b, t] = 0 \<and>
          elems values [b, Suc t] = 1 \<longrightarrow>
            elems (rewards tr) [b, t] + gamma (task self) * elems values [b, Suc t]
              - elems values [b, t] = 199 / 100 \<and>
            elems weights [b, t] = exp (199 / 100) \<and>
            \<bar>elems weights [b, t] - 732 / 100\<bar> < 5 / 1000)"
    if bt: "b < B \<and> t < L" for b t
  proof -
    let ?td = "elems (rewards tr) [b, t] + gamma (task self) * elems values [b, Suc t]
                       - elems values [b, t]"
    from w bt have eq: "elems weights [b, t] = min (np_exp (?td / beta self)) (w_max self)"
      by blast
    have nonneg: "0 \<le> elems weights [b, t]"
      unfolding eq using assms(6) np_exp_nonneg [of "?td / beta self"] by simp
    have le: "elems weights [b, t] \<le> w_max self"
      unfolding eq by simp
    have ex: "?td = 199 / 100 \<and> elems weights [b, t] = exp (199 / 100) \<and>
        \<bar>elems weights [b, t] - 732 / 100\<bar> < 5 / 1000"
      if c: "gamma (task self) = 99 / 100 \<and> beta self = 1 \<and> w_max self = 20 \<and>
          elems (rewards tr) [b, t] = 1 \<and> elems values [b, t] = 0 \<and>
          elems values [b, Suc t] = 1"
    proof -
      from c have g: "gamma (task self) = 99 / 100" and b1: "beta self = 1"
        and wm: "w_max self = 20" and r1: "elems (rewards tr) [b, t] = 1"
        and v0: "elems values [b, t] = 0" and v1: "elems values [b, Suc t] = 1"
        by blast+
      have td: "?td = 199 / 100"
        unfolding g r1 v0 v1 by simp
      have "np_exp (199 / 100) = exp (199 / 100)"
        by (rule np_exp_exact) simp
      then have "elems weights [b, t] = min (exp (199 / 100)) 20"
        unfolding eq td b1 wm by simp
      with exp_199_bounds have "elems weights [b, t] = exp (199 / 100)" by simp
      with td exp_199_bounds show ?thesis by (simp add: abs_less_iff)
    qed
    from eq nonneg le ex show ?thesis by blast
  qed
  with r s show ?thesis by blast
qed

lemma example_AWR_shapes:
  "shape (observations example_trajectory) = 2 # Suc 3 # []"
  "shape (actions example_trajectory) = 2 # Suc 3 # []"
  "shape (rewards example_trajectory) = [2, Suc 3]"
  "shape example_values = [2, Suc 3]"
  by (simp_all add: example_trajectory_def example_values_def of_rows_def)

theorem AWR_policy_inputs_weights_witness:
  "weight_at (AWR_policy_inputs example_AWR_trainer example_trajectory example_values) [0, 0] =
     Some (exp (199 / 100)) \<and>
   \<bar>exp (199 / 100 :: real) - 732 / 100\<bar> < 5 / 1000 \<and>
   0 < exp (199 / 100 :: real) \<and> exp (199 / 100 :: real) \<le> w_max example_AWR_trainer"
proof -
  have b: "0 < beta example_AWR_trainer" and m: "0 \<le> w_max example_AWR_trainer"
    by (simp_all add: example_AWR_trainer_def)
  from AWR_policy_inputs_weights [OF example_AWR_shapes b m] obtain weights where
    r: "AWR_policy_inputs example_AWR_trainer example_trajectory example_values =
        Inr (Tuple3 \<lparr>shape = [2, 3], elems = elems (observations example_trajectory)\<rparr>
                    \<lparr>shape = [2, 3], elems = elems (actions example_trajectory)\<rparr> weights)"
    and w: "\<forall>b t. b < 2 \<and> t < 3 \<longrightarrow>
         0 \<le> elems weights [b, t] \<and> elems weights [b, t] \<le> w_max example_AWR_trainer \<and>
         (gamma (task example_AWR_trainer) = 99 / 100 \<and> beta example_AWR_trainer = 1 \<and>
          w_max example_AWR_trainer = 20 \<and>
          elems (rewards example_trajectory) [b, t] = 1 \<and> elems example_values [b, t] = 0 \<and>
          elems example_values [b, Suc t] = 1 \<longrightarrow>
            elems weights [b, t] = exp (199 / 100) \<and>
            \<bar>elems weights [b, t] - 732 / 100\<bar> < 5 / 1000)"
    by blast
  have c: "gamma (task example_AWR_trainer) = 99 / 100 \<and> beta example_AWR_trainer = 1 \<and>
          w_max example_AWR_trainer = 20 \<and>
          elems (rewards example_trajectory) [0, 0] = 1 \<and> elems example_values [0, 0] = 0 \<and>
          elems example_values [0, Suc 0] = 1"
    by (simp add: example_AWR_trainer_def example_task_def example_trajectory_def
        example_values_def of_rows_def)
  have in_batch: "(0::nat) < 2 \<and> (0::nat) < 3" by simp
  from w have "0 \<le> elems weights [0, 0] \<and> elems weights [0, 0] \<le> w_max example_AWR_trainer \<and>
         (gamma (task example_AWR_trainer) = 99 / 100 \<and> beta example_AWR_trainer = 1 \<and>
          w_max example_AWR_trainer = 20 \<and>
          elems (rewards example_trajectory) [0, 0] = 1 \<and> elems example_values [0, 0] = 0 \<and>
          elems example_values [0, Suc 0] = 1 \<longrightarrow>
            elems weights [0, 0] = exp (199 / 100) \<and>
            \<bar>elems weights [0, 0] - 732 / 100\<bar> < 5 / 1000)"
    using in_batch by blast
  with c have "elems weights [0, 0] \<le> w_max example_AWR_trainer"
    "elems weights [0, 0] = exp (199 / 100)" "\<bar>elems weights [0, 0] - 732 / 100\<bar> < 5 / 1000"
    by blast+
  with r show ?thesis
    by (simp add: weight_at_def)
qed

text \<open>
  Claim C4 as stated bounds every weight from below by 0, strictly, for any finite rewards
  and values and any \<open>\<beta> > 0\<close>. With the default \<open>\<beta> = 1\<close> and \<open>w_max = 20\<close> and the reward
  \<open>-1000\<close> the advantage is \<open>-999.01\<close>, the exponential underflows and the weight is 0.
  With \<open>w_max = -1\<close> the weight is \<open>-1\<close>.
\<close>

theorem AWR_weight_not_positive_counterexample:
  "weight_at (AWR_policy_inputs example_AWR_trainer large_penalty_trajectory example_values)
     [0, 0] = Some 0 \<and>
   weight_at (AWR_policy_inputs negative_clip_AWR_trainer example_trajectory example_values)
     [0, 0] = Some (- 1)"
proof
  have shapes: "shape (observations large_penalty_trajectory) = 2 # Suc 3 # []"
    "shape (actions large_penalty_trajectory) = 2 # Suc 3 # []"
    "shape (rewards large_penalty_trajectory) = [2, Suc 3]"
    by (simp_all add: large_penalty_trajectory_def example_trajectory_def of_rows_def)
  have "beta example_AWR_trainer \<noteq> 0"
    by (simp add: example_AWR_trainer_def)
  from AWR_policy_inputs_result [OF shapes example_AWR_shapes(4) this] obtain weights where
    r: "AWR_policy_inputs example_AWR_trainer large_penalty_trajectory example_values =
        Inr (Tuple3 \<lparr>shape = [2, 3], elems = elems (observations large_penalty_trajectory)\<rparr>
                    \<lparr>shape = [2, 3], elems = elems (actions large_penalty_trajectory)\<rparr> weights)"
    and w: "\<forall>b t. b < 2 \<and> t < 3 \<longrightarrow>
         elems weights [b, t] =
           min (np_exp ((elems (rewards large_penalty_trajectory) [b, t]
                      + gamma (task example_AWR_trainer) * elems example_values [b, Suc t]
                      - elems example_values [b, t]) / beta example_AWR_trainer))
               (w_max example_AWR_trainer)"
    by blast
  have in_batch: "(0::nat) < 2 \<and> (0::nat) < 3" by simp
  from w have "elems weights [0, 0] =
           min (np_exp ((elems (rewards large_penalty_trajectory) [0, 0]
                      + gamma (task example_AWR_trainer) * elems example_values [0, Suc 0]
                      - elems example_values [0, 0]) / beta example_AWR_trainer))
               (w_max example_AWR_trainer)"
    using in_batch by blast
  also have "\<dots> = min (np_exp (- (99901 / 100))) 20"
    by (simp add: large_penalty_trajectory_def example_AWR_trainer_def example_task_def
        example_values_def of_rows_def)
  also have "np_exp (- (99901 / 100)) = 0"
    by (rule np_exp_underflow) simp
  finally show "weight_at
      (AWR_policy_inputs example_AWR_trainer large_penalty_trajectory example_values)
      [0, 0] = Some 0"
    using r by (simp add: weight_at_def)
next
  have "beta negative_clip_AWR_trainer \<noteq> 0"
    by (simp add: negative_clip_AWR_trainer_def)
  from AWR_policy_inputs_result [OF example_AWR_shapes this] obtain weights where
    r: "AWR_policy_inputs negative_clip_AWR_trainer example_trajectory example_values =
        Inr (Tuple3 \<lparr>shape = [2, 3], elems = elems (observations example_trajectory)\<rparr>
                    \<lparr>shape = [2, 3], elems = elems (actions example_trajectory)\<rparr> weights)"
    and w: "\<forall>b t. b < 2 \<and> t < 3 \<longrightarrow>
         elems weights [b, t] =
           min (np_exp ((elems (rewards example_trajectory) [b, t]
                      + gamma (task negative_clip_AWR_trainer) * elems example_values [b, Suc t]
                      - elems example_values [b, t]) / beta negative_clip_AWR_trainer))
               (w_max negative_clip_AWR_trainer)"
    by blast
  have in_batch: "(0::nat) < 2 \<and> (0::nat) < 3" by simp
  from w have "elems weights [0, 0] =
           min (np_exp ((elems (rewards example_trajectory) [0, 0]
                      + gamma (task negative_clip_AWR_trainer) * elems example_values [0, Suc 0]
                      - elems example_values [0, 0]) / beta negative_clip_AWR_trainer))
               (w_max negative_clip_AWR_trainer)"
    using in_batch by blast
  also have "\<dots> = - 1"
  proof -
    have "\<not> np_exp x \<le> (- 1 :: real)" for x :: real
      using np_exp_nonneg [of x] by linarith
    then show ?thesis
      by (simp add: negative_clip_AWR_trainer_def min_def)
  qed
  finally show "weight_at
      (AWR_policy_inputs negative_clip_AWR_trainer example_trajectory example_values)
      [0, 0] = Some (- 1)"
    using r by (simp add: weight_at_def)
qed

subsection \<open>The PPO loss\<close>

lemma mean_nd_single: "mean_nd \<lparr>shape = [Suc 0, Suc 0], elems = f\<rparr> = Inr (f [0, 0])"
  by (simp add: mean_nd_def)

lemma operand_index_single: "operand_index [Suc 0, Suc 0] [0, 0] = [0, 0]"
  by (simp add: operand_index_def)

lemma of_rows_single: "of_rows [[x]] = \<lparr>shape = [Suc 0, Suc 0], elems = (\<lambda>i. [[x]] ! (i ! 0) ! (i ! 1))\<rparr>"
  by (simp add: of_rows_def)

lemma loss_with_attribute:
  "ppo_loss PPO_trainer_with_attribute (of_rows [[0]]) (of_rows [[1]]) (of_rows [[- 1]]) =
     Inr (- 1)"
proof -
  have a: "self_old_log_probs PPO_trainer_with_attribute = Some (of_rows [[0]])"
    and e: "ppo_eps PPO_trainer_with_attribute = 2 / 10"
    by (simp_all add: PPO_trainer_with_attribute_def)
  show ?thesis
    unfolding ppo_loss_def a e of_rows_single
    by (simp add: map_nd_def elementwise_same_shape bind_res_def clamp_def mean_nd_single
        operand_index_single)
qed


lemma loss_of_spec:
  "spec_ppo_loss (2 / 10) (of_rows [[0]]) (of_rows [[1]]) (of_rows [[- 1]]) = Inr (- (12 / 10))"
proof -
  have "(2::real) \<le> exp 1"
    using exp_ge_add_one_self [of "1::real"] by simp
  then have "min (exp 1) (6 / 5 :: real) = 6 / 5" "max (exp 1) (4 / 5 :: real) = exp 1"
    by simp_all
  then show ?thesis
    unfolding spec_ppo_loss_def of_rows_single
    by (simp add: elementwise_same_shape bind_res_def clamp_def mean_nd_single
        operand_index_single)
qed

lemma example_PPO_init:
  "\<exists>base. PPOTrainer_init example_PolicyTrainer_init example_task None no_keywords =
      Inr (ActorCriticTrainer.extend base (PPOTrainer.fields (2 / 10) None))"
proof -
  from example_init [of no_keywords] obtain base where
    "ActorCriticTrainer_init example_PolicyTrainer_init example_task no_keywords = Inr base"
    by blast
  then show ?thesis
    by (auto simp: PPOTrainer_init_def bind_res_def)
qed

lemma extend_without_attribute:
  "self_old_log_probs (ActorCriticTrainer.extend base (PPOTrainer.fields e None)) = None"
  by (simp add: ActorCriticTrainer.defs PPOTrainer.defs)

lemma ppo_loss_without_attribute:
  "self_old_log_probs self = None \<Longrightarrow>
   ppo_loss self new_log_probs advantages old_log_probs = Inl AttributeError"
  by (simp add: ppo_loss_def)

lemma loss_after_init:
  "map_sum id (\<lambda>self. ppo_loss self (of_rows [[0]]) (of_rows [[1]]) (of_rows [[- 1]]))
     (PPOTrainer_init example_PolicyTrainer_init example_task None no_keywords) =
     Inr (Inl AttributeError)"
proof -
  from example_PPO_init obtain base :: "(real, nat) ActorCriticTrainer" where
    "PPOTrainer_init example_PolicyTrainer_init example_task None no_keywords =
      Inr (ActorCriticTrainer.extend base (PPOTrainer.fields (2 / 10) None))"
    by blast
  then show ?thesis
    by (simp add: ppo_loss_without_attribute [OF extend_without_attribute])
qed


text \<open>
  Claim C2. The claim is that \<^verbatim>\<open>ppo_loss\<close> computes the clipped-surrogate loss from its
  three arguments, with the ratio \<open>exp (new_log_probs - old_log_probs)\<close> taken from the
  argument \<^verbatim>\<open>old_log_probs\<close>. The code divides by \<^verbatim>\<open>np.exp(self.old_log_probs)\<close>: it reads
  an attribute that no statement of the file assigns and never reads the argument. On a
  trainer that the constructor returned the loss raises \<^verbatim>\<open>AttributeError\<close>; on a trainer
  that carries such an attribute (here the log-probability 0) the loss for new log-probability
  0, advantage 1 and old log-probability \<open>-1\<close> is \<open>-1\<close>, where the loss of the specification
  is \<open>-1.2\<close>; and for every trainer the result does not depend on the argument.
\<close>

theorem ppo_loss_ignores_old_log_probs:
  "map_sum id (\<lambda>self. ppo_loss self (of_rows [[0]]) (of_rows [[1]]) (of_rows [[- 1]]))
     (PPOTrainer_init example_PolicyTrainer_init example_task None no_keywords) =
     Inr (Inl AttributeError) \<and>
   ppo_loss PPO_trainer_with_attribute (of_rows [[0]]) (of_rows [[1]]) (of_rows [[- 1]]) =
     Inr (- 1) \<and>
   spec_ppo_loss (2 / 10) (of_rows [[0]]) (of_rows [[1]]) (of_rows [[- 1]]) = Inr (- (12 / 10)) \<and>
   (\<forall>self new_log_probs advantages old1 old2.
      ppo_loss self new_log_probs advantages old1 = ppo_loss self new_log_probs advantages old2)"
proof (intro conjI allI)
  show "map_sum id (\<lambda>self. ppo_loss self (of_rows [[0]]) (of_rows [[1]]) (of_rows [[- 1]]))
     (PPOTrainer_init example_PolicyTrainer_init example_task None no_keywords) =
     Inr (Inl AttributeError)"
    by (rule loss_after_init)
next
  show "ppo_loss PPO_trainer_with_attribute (of_rows [[0]]) (of_rows [[1]]) (of_rows [[- 1]]) =
     Inr (- 1)"
    by (rule loss_with_attribute)
next
  show "spec_ppo_loss (2 / 10) (of_rows [[0]]) (of_rows [[1]]) (of_rows [[- 1]]) =
     Inr (- (12 / 10))"
    by (rule loss_of_spec)
next
  fix self :: "('a, 'b, 'c) PPOTrainer_scheme" and new_log_probs advantages old1 old2
  show "ppo_loss self new_log_probs advantages old1 = ppo_loss self new_log_probs advantages old2"
    by (simp add: ppo_loss_def)
qed

end
